theory Spec2Isabelle
  imports Main "HOL-Library.Product_Lexorder"
begin

section \<open>JavaScript strings\<close>

text \<open>
  The server (\<^verbatim>\<open>src/unnamed/part_000\<close>) is JavaScript.  A JavaScript string is
  modelled as a \<^typ>\<open>string\<close>, a list of 8-bit characters: the model covers strings
  whose code units are below 256 (Latin-1).  Numbers are modelled as integers:
  every number the modelled code computes comes from \<^verbatim>\<open>parseInt\<close>, from a list
  length or from the clock, and the code only compares them with small integer
  constants, where the rounding of a double changes nothing.
\<close>

definition isDigit :: "char \<Rightarrow> bool" where
  \<comment> \<open>the character class \<^verbatim>\<open>[0-9]\<close>, also \<^verbatim>\<open>\d\<close>\<close>
  "isDigit c \<longleftrightarrow> c \<in> set ''0123456789''"

definition digitVal :: "char \<Rightarrow> nat" where
  "digitVal c = of_char c - 48"

definition digitChar :: "nat \<Rightarrow> char" where
  "digitChar d = ''0123456789'' ! d"

fun showNat :: "nat \<Rightarrow> string" where
  \<comment> \<open>\<^verbatim>\<open>Number.prototype.toString\<close> on a non-negative integer\<close>
  "showNat n = (if n < 10 then [digitChar n] else showNat (n div 10) @ [digitChar (n mod 10)])"

declare showNat.simps [simp del]

definition showInt :: "int \<Rightarrow> string" where
  "showInt i = (if i < 0 then CHR ''-'' # showNat (nat (- i)) else showNat (nat i))"

definition isSpaceJS :: "char \<Rightarrow> bool" where
  \<comment> \<open>white space and line terminators below 256: what \<^verbatim>\<open>trim\<close>, \<^verbatim>\<open>\s\<close> and
      \<^verbatim>\<open>parseInt\<close> skip\<close>
  "isSpaceJS c \<longleftrightarrow> (of_char c :: nat) \<in> {9, 10, 11, 12, 13, 32, 160}"

definition trimJS :: "string \<Rightarrow> string" where
  "trimJS s = rev (dropWhile isSpaceJS (rev (dropWhile isSpaceJS s)))"

definition lowerChar :: "char \<Rightarrow> char" where
  \<comment> \<open>\<^verbatim>\<open>toLowerCase\<close> on one Latin-1 character: A-Z, and 0xC0-0xDE without 0xD7\<close>
  "lowerChar c =
     (case map_of (zip ''ABCDEFGHIJKLMNOPQRSTUVWXYZ'' ''abcdefghijklmnopqrstuvwxyz'') c of
        Some l \<Rightarrow> l
      | None \<Rightarrow> (let n = (of_char c :: nat) in
                  if 192 \<le> n \<and> n \<le> 222 \<and> n \<noteq> 215 then char_of (n + 32) else c))"

definition toLowerJS :: "string \<Rightarrow> string" where
  "toLowerJS s = map lowerChar s"

definition upperAsciiChar :: "char \<Rightarrow> char" where
  "upperAsciiChar c =
     (case map_of (zip ''abcdefghijklmnopqrstuvwxyz'' ''ABCDEFGHIJKLMNOPQRSTUVWXYZ'') c of
        Some u \<Rightarrow> u
      | None \<Rightarrow> c)"

definition toUpperAscii :: "string \<Rightarrow> string" where
  \<comment> \<open>\<^verbatim>\<open>toUpperCase\<close>, used by the model on ASCII letters only (the letters a
      regular expression has matched as A, P or M)\<close>
  "toUpperAscii s = map upperAsciiChar s"

fun splitAcc :: "char \<Rightarrow> string \<Rightarrow> string \<Rightarrow> string list" where
  "splitAcc sep acc [] = [rev acc]"
| "splitAcc sep acc (c # cs) =
     (if c = sep then rev acc # splitAcc sep [] cs else splitAcc sep (c # acc) cs)"

definition splitJS :: "char \<Rightarrow> string \<Rightarrow> string list" where
  \<comment> \<open>\<^verbatim>\<open>s.split(sep)\<close> for a separator of one character\<close>
  "splitJS sep s = splitAcc sep [] s"

definition digitsVal :: "string \<Rightarrow> nat" where
  \<comment> \<open>the value of a string of decimal digits\<close>
  "digitsVal ds = foldl (\<lambda>a c. 10 * a + digitVal c) 0 ds"

definition parseIntJS :: "string \<Rightarrow> int option" where
  \<comment> \<open>\<^verbatim>\<open>parseInt(s, 10)\<close>; \<open>None\<close> is NaN\<close>
  "parseIntJS s =
     (let t = dropWhile isSpaceJS s;
          neg = (t \<noteq> [] \<and> hd t = CHR ''-'');
          u = (if t \<noteq> [] \<and> (hd t = CHR ''-'' \<or> hd t = CHR ''+'') then tl t else t);
          ds = takeWhile isDigit u
      in if ds = [] then None
         else Some ((if neg then - 1 else 1) * int (digitsVal ds)))"

definition padStart2 :: "string \<Rightarrow> string" where
  \<comment> \<open>\<^verbatim>\<open>s.padStart(2, '0')\<close>\<close>
  "padStart2 s = replicate (2 - length s) (CHR ''0'') @ s"


section \<open>Time strings\<close>

subsection \<open>The header parser of the per-minute job\<close>

text \<open>
  Lines 3276-3311 of \<^verbatim>\<open>part_000\<close> parse a header of the schedule grid.
  \<^verbatim>\<open>timePart.match(/([0-9:]+)\s*([AP]M?)/i)\<close> is not anchored: the match starts
  at the first run of digits and colons that is followed, after optional white space,
  by A or P.  The three character classes are disjoint, so backtracking into the run
  never helps and the first group is a whole run.
\<close>

definition isTimeChar :: "char \<Rightarrow> bool" where
  \<comment> \<open>the character class \<^verbatim>\<open>[0-9:]\<close>\<close>
  "isTimeChar c \<longleftrightarrow> isDigit c \<or> c = CHR '':''"

fun periodMatch :: "string \<Rightarrow> (string \<times> string) option" where
  "periodMatch [] = None"
| "periodMatch (c # cs) =
     (if isTimeChar c then
        (case dropWhile isSpaceJS (dropWhile isTimeChar (c # cs)) of
           [] \<Rightarrow> periodMatch cs
         | p # q \<Rightarrow>
             if p \<in> set ''APap'' then
               Some (takeWhile isTimeChar (c # cs),
                     p # (case q of [] \<Rightarrow> [] | m # _ \<Rightarrow> if m \<in> set ''Mm'' then [m] else []))
             else periodMatch cs)
      else periodMatch cs)"

definition normPeriod :: "string \<Rightarrow> string" where
  \<comment> \<open>\<^verbatim>\<open>if (period === 'P') period = 'PM'; if (period === 'A') period = 'AM';\<close>\<close>
  "normPeriod p = (let p1 = (if p = ''P'' then ''PM'' else p) in if p1 = ''A'' then ''AM'' else p1)"

definition splitPeriod :: "string \<Rightarrow> string \<times> string" where
  \<comment> \<open>\<^verbatim>\<open>timePart\<close> and \<^verbatim>\<open>period\<close> after lines 3277-3288; the period is empty when
      the expression does not match\<close>
  "splitPeriod timeString =
     (let timePart = trimJS timeString in
      case periodMatch timePart of
        None \<Rightarrow> (timePart, '''')
      | Some (g1, g2) \<Rightarrow> (trimJS g1, normPeriod (toUpperAscii g2)))"

definition hoursMinutes :: "string \<Rightarrow> int option \<times> int option" where
  \<comment> \<open>lines 3291-3293: \<^verbatim>\<open>const [hoursStr, minutesStr] = timePart.split(':')\<close>, then
      \<^verbatim>\<open>parseInt(hoursStr, 10)\<close> and \<^verbatim>\<open>parseInt(minutesStr || '0', 10)\<close>\<close>
  "hoursMinutes timePart =
     (let parts = splitJS (CHR '':'') timePart;
          hoursStr = (case parts of [] \<Rightarrow> '''' | h # _ \<Rightarrow> h);
          minutesStr = (case parts of _ # m # _ \<Rightarrow> m | _ \<Rightarrow> '''')
      in (parseIntJS hoursStr, parseIntJS (if minutesStr = '''' then ''0'' else minutesStr)))"

definition to24 :: "string \<Rightarrow> int \<Rightarrow> int" where
  \<comment> \<open>lines 3296-3305; the branch for a missing period changes nothing\<close>
  "to24 period hours =
     (if period \<noteq> '''' then
        (let h1 = (if period = ''PM'' \<and> hours < 12 then hours + 12 else hours)
         in if period = ''AM'' \<and> h1 = 12 then 0 else h1)
      else hours)"

definition validTime :: "int \<Rightarrow> int \<Rightarrow> bool" where
  \<comment> \<open>the negation of the test of line 3308, for numbers that are not NaN\<close>
  "validTime hours minutes \<longleftrightarrow> \<not> (hours < 0 \<or> hours > 23 \<or> minutes < 0 \<or> minutes > 59)"

definition parseTimeSlot :: "string \<Rightarrow> (int \<times> int) option" where
  \<comment> \<open>the hours and minutes pushed to \<^verbatim>\<open>timeSlots\<close> for a header that is a string,
      \<open>None\<close> when line 3310 skips the header\<close>
  "parseTimeSlot timeString =
     (let (timePart, period) = splitPeriod timeString in
      case hoursMinutes timePart of
        (Some h, Some m) \<Rightarrow>
          if validTime (to24 period h) m then Some (to24 period h, m) else None
      | _ \<Rightarrow> None)"

subsection \<open>The formatters\<close>

text \<open>
  \<^verbatim>\<open>extractTime\<close> (lines 2387-2408) turns a time string into the 12-hour form
  \<^verbatim>\<open>H:MM AM/PM\<close>.  Its expression
  \<^verbatim>\<open>/^(\d{1,2}):(\d{2})(?::\d{2})?\s*(am|pm)?$/i\<close> is anchored at both ends.
\<close>

definition timeMatch :: "string \<Rightarrow> (string \<times> string \<times> string option) option" where
  "timeMatch s =
     (let h = take 2 (takeWhile isDigit s) in
      if h = [] then None
      else case drop (length h) s of
        c # a # b # r3 \<Rightarrow>
          if c = CHR '':'' \<and> isDigit a \<and> isDigit b then
            (let r4 = (case r3 of
                         c1 # x # y # r \<Rightarrow> if c1 = CHR '':'' \<and> isDigit x \<and> isDigit y then r else r3
                       | _ \<Rightarrow> r3);
                 r5 = dropWhile isSpaceJS r4
             in if r5 = [] then Some (h, [a, b], None)
                else if toLowerJS r5 = ''am'' \<or> toLowerJS r5 = ''pm'' then Some (h, [a, b], Some r5)
                else None)
          else None
      | _ \<Rightarrow> None)"

definition extractTime :: "string \<Rightarrow> string" where
  "extractTime timeStr =
     (if timeStr = '''' then ''''
      else case timeMatch timeStr of
        None \<Rightarrow> timeStr
      | Some (hs, minutes, per) \<Rightarrow>
          (case per of
             Some period \<Rightarrow>
               trimJS ((case parseIntJS hs of None \<Rightarrow> ''NaN'' | Some h \<Rightarrow> showInt h)
                       @ '':'' @ minutes @ '' '' @ toUpperAscii period)
           | None \<Rightarrow>
               (let period = (case parseIntJS hs of None \<Rightarrow> ''AM''
                              | Some h \<Rightarrow> if h \<ge> 12 then ''PM'' else ''AM'');
                    hours = (case parseIntJS hs of None \<Rightarrow> 12
                             | Some h \<Rightarrow> if h mod 12 = 0 then 12 else h mod 12)
                in trimJS (showInt hours @ '':'' @ minutes @ '' '' @ toUpperAscii period))))"

definition timeStr :: "nat \<Rightarrow> nat \<Rightarrow> string" where
  \<comment> \<open>line 3344: \<^verbatim>\<open>`${hours}:${minutes < 10 ? '0' + minutes : minutes}`\<close>\<close>
  "timeStr hours minutes =
     showNat hours @ '':'' @ (if minutes < 10 then ''0'' @ showNat minutes else showNat minutes)"

definition formattedTime :: "nat \<Rightarrow> nat \<Rightarrow> string" where
  \<comment> \<open>line 3083:
      \<^verbatim>\<open>`${hours.toString().padStart(2, '0')}:${minutes.toString().padStart(2, '0')}`\<close>\<close>
  "formattedTime hours minutes = padStart2 (showNat hours) @ '':'' @ padStart2 (showNat minutes)"

subsection \<open>Shapes of time strings, for the statements below\<close>

definition digitStr :: "string \<Rightarrow> bool" where
  \<comment> \<open>a non-empty string of decimal digits\<close>
  "digitStr s \<longleftrightarrow> s \<noteq> [] \<and> (\<forall>c\<in>set s. isDigit c)"

definition amSuffixes :: "string list" where
  "amSuffixes = [''AM'', ''am'', ''Am'', ''aM'', ''A'', ''a'']"

definition pmSuffixes :: "string list" where
  "pmSuffixes = [''PM'', ''pm'', ''Pm'', ''pM'', ''P'', ''p'']"


section \<open>JavaScript values and exceptions\<close>

text \<open>
  The stored schedule of a user is read by the job as a value of any shape
  (\<^verbatim>\<open>typeof rows[0] === 'object'\<close>, \<^verbatim>\<open>Array.isArray\<close>, \<^verbatim>\<open>row.day || row.Day\<close>),
  so it is modelled as a JSON document.  An object is the list of its own properties;
  a number in a document is an integer.
  An exception of the source is the result \<open>Throw\<close>; \<^verbatim>\<open>try\<close>/\<^verbatim>\<open>catch\<close> is
  \<open>catchR\<close>.  The result \<open>Unmodelled\<close> marks the two operations the embedding does not
  evaluate: the conversion of a string to a number inside a relational comparison
  (it arises only when a plain object carries a property named \<^verbatim>\<open>length\<close>), and the
  printing of a number beyond \<^verbatim>\<open>Number.MAX_SAFE_INTEGER\<close>, which JavaScript rounds
  and, from \<^verbatim>\<open>1e21\<close> on, prints with an exponent.  No handler catches it and no
  statement below says what the code does there.
\<close>

datatype jsval =
    Undefined
  | Null
  | Bool bool
  | Num int
  | Str string
  | Arr "jsval list"
  | Obj "(string \<times> jsval) list"

datatype error = TypeError | ReferenceError

datatype 'a res = Val 'a | Throw error | Unmodelled

definition bindR :: "'a res \<Rightarrow> ('a \<Rightarrow> 'b res) \<Rightarrow> 'b res" where
  "bindR m f = (case m of Val v \<Rightarrow> f v | Throw e \<Rightarrow> Throw e | Unmodelled \<Rightarrow> Unmodelled)"

definition catchR :: "'a res \<Rightarrow> (error \<Rightarrow> 'a res) \<Rightarrow> 'a res" where
  "catchR m h = (case m of Val v \<Rightarrow> Val v | Throw e \<Rightarrow> h e | Unmodelled \<Rightarrow> Unmodelled)"

fun forEachR :: "('a \<Rightarrow> unit res) \<Rightarrow> 'a list \<Rightarrow> unit res" where
  "forEachR f [] = Val ()"
| "forEachR f (x # xs) = bindR (f x) (\<lambda>_. forEachR f xs)"

fun filterR :: "('a \<Rightarrow> bool res) \<Rightarrow> 'a list \<Rightarrow> 'a list res" where
  "filterR f [] = Val []"
| "filterR f (x # xs) =
     bindR (f x) (\<lambda>keep. bindR (filterR f xs) (\<lambda>ys. Val (if keep then x # ys else ys)))"

fun findR :: "('a \<Rightarrow> bool res) \<Rightarrow> 'a list \<Rightarrow> 'a option res" where
  "findR f [] = Val None"
| "findR f (x # xs) = bindR (f x) (\<lambda>hit. if hit then Val (Some x) else findR f xs)"

fun truthy :: "jsval \<Rightarrow> bool" where
  "truthy Undefined = False"
| "truthy Null = False"
| "truthy (Bool b) = b"
| "truthy (Num n) = (n \<noteq> 0)"
| "truthy (Str s) = (s \<noteq> [])"
| "truthy (Arr xs) = True"
| "truthy (Obj kvs) = True"

definition orElse :: "jsval \<Rightarrow> jsval \<Rightarrow> jsval" where
  \<comment> \<open>\<^verbatim>\<open>a || b\<close> for an operand \<open>b\<close> that cannot throw\<close>
  "orElse a b = (if truthy a then a else b)"

fun nullish :: "jsval \<Rightarrow> bool" where
  "nullish Undefined = True"
| "nullish Null = True"
| "nullish v = False"

fun isArray :: "jsval \<Rightarrow> bool" where
  "isArray (Arr xs) = True"
| "isArray v = False"

fun isStr :: "jsval \<Rightarrow> bool" where
  "isStr (Str s) = True"
| "isStr v = False"

fun typeofObject :: "jsval \<Rightarrow> bool" where
  \<comment> \<open>\<^verbatim>\<open>typeof v === 'object'\<close>\<close>
  "typeofObject Null = True"
| "typeofObject (Arr xs) = True"
| "typeofObject (Obj kvs) = True"
| "typeofObject v = False"

fun getProp :: "jsval \<Rightarrow> string \<Rightarrow> jsval res" where
  \<comment> \<open>\<^verbatim>\<open>v.k\<close>, for the property names the job reads: rows, headers, length, and day,
      time, task, text with a small or a capital first letter.  No prototype has one
      of these but \<^verbatim>\<open>length\<close> on strings and arrays.\<close>
  "getProp Undefined k = Throw TypeError"
| "getProp Null k = Throw TypeError"
| "getProp (Bool b) k = Val Undefined"
| "getProp (Num n) k = Val Undefined"
| "getProp (Str s) k = Val (if k = ''length'' then Num (int (length s)) else Undefined)"
| "getProp (Arr xs) k = Val (if k = ''length'' then Num (int (length xs)) else Undefined)"
| "getProp (Obj kvs) k = Val (case map_of kvs k of None \<Rightarrow> Undefined | Some v \<Rightarrow> v)"

fun getIdx :: "jsval \<Rightarrow> nat \<Rightarrow> jsval res" where
  \<comment> \<open>\<^verbatim>\<open>v[i]\<close>\<close>
  "getIdx Undefined i = Throw TypeError"
| "getIdx Null i = Throw TypeError"
| "getIdx (Bool b) i = Val Undefined"
| "getIdx (Num n) i = Val Undefined"
| "getIdx (Str s) i = Val (if i < length s then Str [s ! i] else Undefined)"
| "getIdx (Arr xs) i = Val (if i < length xs then xs ! i else Undefined)"
| "getIdx (Obj kvs) i = Val (case map_of kvs (showNat i) of None \<Rightarrow> Undefined | Some v \<Rightarrow> v)"

fun hasDayKey :: "string \<Rightarrow> jsval \<Rightarrow> bool res" where
  \<comment> \<open>\<^verbatim>\<open>'day' in v\<close> and \<^verbatim>\<open>'Day' in v\<close>: a TypeError unless \<open>v\<close> is an object; no
      array has such a property\<close>
  "hasDayKey k (Obj kvs) = Val (k \<in> fst ` set kvs)"
| "hasDayKey k (Arr xs) = Val False"
| "hasDayKey k v = Throw TypeError"

fun toStringJS :: "jsval \<Rightarrow> string res"
  and joinJS :: "jsval list \<Rightarrow> string res" where
  "toStringJS Undefined = Val ''undefined''"
| "toStringJS Null = Val ''null''"
| "toStringJS (Bool b) = Val (if b then ''true'' else ''false'')"
| "toStringJS (Num n) = (if \<bar>n\<bar> \<le> 9007199254740991 then Val (showInt n) else Unmodelled)"
| "toStringJS (Str s) = Val s"
| "toStringJS (Arr xs) = joinJS xs"
| "toStringJS (Obj kvs) =
     (if ''toString'' \<in> fst ` set kvs then Throw TypeError else Val ''[object Object]'')"
| "joinJS [] = Val []"
| "joinJS (x # xs) =
     bindR (if nullish x then Val [] else toStringJS x) (\<lambda>s.
       if xs = [] then Val s else bindR (joinJS xs) (\<lambda>t. Val (s @ '','' @ t)))"

text \<open>
  \<open>toStringJS\<close> is the conversion to a string of a template literal and of a property
  key, \<open>joinJS\<close> is \<^verbatim>\<open>Array.prototype.join\<close>.  An object with an own property
  \<^verbatim>\<open>toString\<close>, which in a JSON document is not a function, has no primitive value.
  A number prints as its decimal digits as long as it is a safe integer.
\<close>

definition callToString :: "jsval \<Rightarrow> string res" where
  \<comment> \<open>the method call \<^verbatim>\<open>v.toString()\<close>\<close>
  "callToString v = (if nullish v then Throw TypeError else toStringJS v)"

fun toNumberJS :: "jsval \<Rightarrow> int option res" where
  \<comment> \<open>the operand of a relational comparison as a number; \<open>None\<close> is NaN\<close>
  "toNumberJS Undefined = Val None"
| "toNumberJS Null = Val (Some 0)"
| "toNumberJS (Bool b) = Val (Some (if b then 1 else 0))"
| "toNumberJS (Num n) = Val (Some n)"
| "toNumberJS (Str s) = Unmodelled"
| "toNumberJS (Arr xs) = bindR (joinJS xs) (\<lambda>_. Unmodelled)"
| "toNumberJS (Obj kvs) = bindR (toStringJS (Obj kvs)) (\<lambda>_. Val None)"

definition gtZero :: "jsval \<Rightarrow> bool res" where
  \<comment> \<open>\<^verbatim>\<open>v > 0\<close>\<close>
  "gtZero v = bindR (toNumberJS v) (\<lambda>n. Val (case n of None \<Rightarrow> False | Some k \<Rightarrow> k > 0))"

definition capitalize :: "string \<Rightarrow> string" where
  \<comment> \<open>\<^verbatim>\<open>s.charAt(0).toUpperCase() + s.slice(1).toLowerCase()\<close>.  The job only compares
      the result with a day name or uses it as a key of \<^verbatim>\<open>daysMap\<close>; for these tests
      the upper case of the first character matters for ASCII letters only.\<close>
  "capitalize s = (case s of [] \<Rightarrow> [] | c # r \<Rightarrow> upperAsciiChar c # toLowerJS r)"

definition objectPrototypeKeys :: "string list" where
  \<comment> \<open>the properties every plain object inherits; all of them are truthy and none has
      a method \<^verbatim>\<open>push\<close>\<close>
  "objectPrototypeKeys =
     [''constructor'', ''__defineGetter__'', ''__defineSetter__'', ''hasOwnProperty'',
      ''__lookupGetter__'', ''__lookupSetter__'', ''isPrototypeOf'', ''propertyIsEnumerable'',
      ''toString'', ''valueOf'', ''__proto__'', ''toLocaleString'']"

definition pushDaysMap :: "string \<Rightarrow> unit res" where
  \<comment> \<open>\<^verbatim>\<open>if (!daysMap[day]) daysMap[day] = []; daysMap[day].push(...)\<close> on the plain
      object \<^verbatim>\<open>daysMap\<close>\<close>
  "pushDaysMap day = (if day \<in> set objectPrototypeKeys then Throw TypeError else Val ())"


section \<open>The per-minute reminder job\<close>

text \<open>
  The job is the callback of \<^verbatim>\<open>cron.schedule('* * * * *', ...)\<close> at lines 2524-3393.
  It reads the clock once, loads all users, and works through them in six passes: a
  log of all users, the filter for verified users, the selection of users with
  WhatsApp enabled and a valid schedule, two more logging passes, and the loop that
  sends the reminders.  Only the last pass has a handler for each user; the whole
  callback is wrapped in one more handler.  The log output is not modelled, the
  exceptions the logging statements raise are.
\<close>

subsection \<open>Users, tasks and the clock\<close>

record user =
  phone :: "string option"
  isVerified :: "bool option"
  whatsapp :: "bool option"
  schedule :: jsval
  weeklySchedule :: jsval

text \<open>
  The fields the job reads of a \<^verbatim>\<open>User\<close> document (schema at lines 160-187):
  \<open>whatsapp\<close> is \<^verbatim>\<open>notificationSettings?.whatsapp\<close>, \<open>None\<close> is an absent field.
  \<^verbatim>\<open>name\<close> only appears in log lines and is left out.
\<close>

fun castRow :: "jsval \<Rightarrow> jsval" where
  \<comment> \<open>one element of \<^verbatim>\<open>rows: { type: [Array], default: [] }\<close> (line 182) in the
      document that \<^verbatim>\<open>User.find({})\<close> builds\<close>
  "castRow (Arr cells) = Arr cells"
| "castRow Null = Null"
| "castRow Undefined = Undefined"
| "castRow v = Arr [v]"

definition loadedSchedule :: "string list \<Rightarrow> jsval list \<Rightarrow> jsval" where
  \<comment> \<open>the field \<^verbatim>\<open>schedule\<close> of a document stored with these headers, all strings, and
      these rows, as the job reads it\<close>
  "loadedSchedule headers rows =
     Obj [(''headers'', Arr (map Str headers)), (''rows'', Arr (map castRow rows))]"

text \<open>
  The job loads the users with \<^verbatim>\<open>User.find({})\<close> (line 2545), so a stored schedule
  reaches it through the schema of lines 179-185, which declares \<^verbatim>\<open>rows\<close> as an array
  of arrays.  Mongoose, from version 6 on, builds the document with every row cast to
  an array: a row that is not an array becomes an array with that row as its one
  element, an array stays as it is, and so does \<^verbatim>\<open>null\<close>.  A record
  \<^verbatim>\<open>{day, time, task}\<close>, as \<^verbatim>\<open>POST /api/schedule\<close> writes it (lines 2007-2031), is
  therefore read by the job as the one cell of an array.  \<open>user\<close> above is the
  document after this step.
\<close>

record task =
  taskUser :: nat
  taskText :: string
  completed :: bool
  dueDate :: int
  reminderSent :: bool
  oneMinuteReminderSent :: bool

text \<open>
  A document of the \<^verbatim>\<open>Task\<close> collection (schema at lines 208-219); \<open>taskUser\<close> is the
  position of the owner in the list of users, \<open>dueDate\<close> is in milliseconds.
\<close>

record store =
  users :: "user list"
  tasks :: "task list"

datatype weekday = Sunday | Monday | Tuesday | Wednesday | Thursday | Friday | Saturday

fun getDay :: "weekday \<Rightarrow> nat" where
  "getDay Sunday = 0"
| "getDay Monday = 1"
| "getDay Tuesday = 2"
| "getDay Wednesday = 3"
| "getDay Thursday = 4"
| "getDay Friday = 5"
| "getDay Saturday = 6"

fun dayName :: "weekday \<Rightarrow> string" where
  \<comment> \<open>\<^verbatim>\<open>daysOfWeek[d.getDay()]\<close>, line 2527\<close>
  "dayName Sunday = ''Sunday''"
| "dayName Monday = ''Monday''"
| "dayName Tuesday = ''Tuesday''"
| "dayName Wednesday = ''Wednesday''"
| "dayName Thursday = ''Thursday''"
| "dayName Friday = ''Friday''"
| "dayName Saturday = ''Saturday''"

fun dayToRowIndex :: "weekday \<Rightarrow> nat" where
  \<comment> \<open>\<^verbatim>\<open>dayToRowIndex[targetDay.toLowerCase()]\<close>, lines 3231-3243\<close>
  "dayToRowIndex Monday = 0"
| "dayToRowIndex Tuesday = 1"
| "dayToRowIndex Wednesday = 2"
| "dayToRowIndex Thursday = 3"
| "dayToRowIndex Friday = 4"
| "dayToRowIndex Saturday = 5"
| "dayToRowIndex Sunday = 6"

record clock =
  nowMs :: int
  today :: weekday
  targetDay :: weekday
  targetHour :: nat
  targetMinute :: nat

text \<open>
  \<open>nowMs\<close> is \<^verbatim>\<open>now.getTime()\<close>, \<open>today\<close> the day of \<^verbatim>\<open>now\<close>; the other fields are
  the day, hour and minute of \<^verbatim>\<open>nextMinute\<close>, one minute later, in local time.
\<close>

subsection \<open>First pass: the log of all users (lines 2551-2571)\<close>

definition logRowFields :: "jsval \<Rightarrow> unit res" where
  \<comment> \<open>line 2563: \<^verbatim>\<open>`Day: ${row.day || 'N/A'}, Time: ${row.time || 'N/A'}, Task: ${row.task || 'N/A'}`\<close>\<close>
  "logRowFields row =
     bindR (getProp row ''day'') (\<lambda>d.
     bindR (toStringJS (orElse d (Str ''N/A''))) (\<lambda>_.
     bindR (getProp row ''time'') (\<lambda>t.
     bindR (toStringJS (orElse t (Str ''N/A''))) (\<lambda>_.
     bindR (getProp row ''task'') (\<lambda>k.
     bindR (toStringJS (orElse k (Str ''N/A''))) (\<lambda>_. Val ()))))))"

definition logUser :: "user \<Rightarrow> unit res" where
  "logUser u =
     (if \<not> truthy (schedule u) then Val ()
      else
        bindR (getProp (schedule u) ''rows'') (\<lambda>rows.
        bindR (if nullish rows then Val Undefined else getProp rows ''length'') (\<lambda>len.
        bindR (toStringJS (orElse len (Num 0))) (\<lambda>_.
        bindR (gtZero len) (\<lambda>nonEmpty.
          if \<not> nonEmpty then Val ()
          else case rows of
                 Arr xs \<Rightarrow> forEachR logRowFields (take 2 xs)
               | _ \<Rightarrow> Throw TypeError)))))"

text \<open>
  \<^verbatim>\<open>user.schedule.rows.slice(0, 2).forEach(...)\<close> is a TypeError when \<^verbatim>\<open>rows\<close> has a
  positive length and is not an array: a string has \<^verbatim>\<open>slice\<close> but its result has no
  \<^verbatim>\<open>forEach\<close>, an object of a JSON document has no method at all.
\<close>

subsection \<open>Second and third pass: who is processed (lines 2574-2658)\<close>

definition hasPhone :: "user \<Rightarrow> bool" where
  \<comment> \<open>\<^verbatim>\<open>user.phone && user.phone.trim() !== ''\<close>\<close>
  "hasPhone u = (case phone u of None \<Rightarrow> False | Some p \<Rightarrow> p \<noteq> [] \<and> trimJS p \<noteq> [])"

definition verifiedUsers :: "user list \<Rightarrow> user list" where
  "verifiedUsers allUsers = filter (\<lambda>u. hasPhone u \<and> isVerified u = Some True) allUsers"

definition whatsappEnabled :: "user \<Rightarrow> bool" where
  \<comment> \<open>\<^verbatim>\<open>user.notificationSettings?.whatsapp !== false\<close>\<close>
  "whatsappEnabled u \<longleftrightarrow> whatsapp u \<noteq> Some False"

definition rowsStartWithDay :: "jsval \<Rightarrow> bool res" where
  \<comment> \<open>\<^verbatim>\<open>rows.length > 0 && typeof rows[0] === 'object' && 'day' in rows[0]\<close>, for
      \<^verbatim>\<open>rows\<close> that is not null or undefined\<close>
  "rowsStartWithDay rows =
     bindR (getProp rows ''length'') (\<lambda>len.
     bindR (gtZero len) (\<lambda>nonEmpty.
       if \<not> nonEmpty then Val False
       else bindR (getIdx rows 0) (\<lambda>r0.
              if typeofObject r0 then hasDayKey ''day'' r0 else Val False)))"

definition rowComplete :: "jsval \<Rightarrow> bool res" where
  \<comment> \<open>\<^verbatim>\<open>row.day && row.time && row.task\<close>\<close>
  "rowComplete row =
     bindR (getProp row ''day'') (\<lambda>d.
     bindR (getProp row ''time'') (\<lambda>t.
     bindR (getProp row ''task'') (\<lambda>k. Val (truthy d \<and> truthy t \<and> truthy k))))"

definition hasValidSchedule :: "user \<Rightarrow> bool res" where
  \<comment> \<open>lines 2602-2642\<close>
  "hasValidSchedule u =
     (if \<not> truthy (schedule u) then Val False
      else
        bindR (getProp (schedule u) ''rows'') (\<lambda>rows.
        bindR (if truthy rows then rowsStartWithDay rows else Val False) (\<lambda>isNewFormat.
          if isNewFormat then
            (case rows of
               Arr xs \<Rightarrow> bindR (filterR rowComplete xs) (\<lambda>validRows. Val (validRows \<noteq> []))
             | _ \<Rightarrow> Throw TypeError)
          else Val (truthy rows \<and> isArray rows \<and> rows \<noteq> Arr []))))"

definition selectUsers :: "user list \<Rightarrow> user list res" where
  \<comment> \<open>the list \<^verbatim>\<open>users\<close> after line 2658\<close>
  "selectUsers allUsers =
     filterR (\<lambda>u. bindR (hasValidSchedule u) (\<lambda>valid. Val (whatsappEnabled u \<and> valid)))
       (verifiedUsers allUsers)"

subsection \<open>Fourth pass: the log of today's tasks (lines 2675-2795)\<close>

fun mapR :: "('a \<Rightarrow> 'b res) \<Rightarrow> 'a list \<Rightarrow> 'b list res" where
  "mapR f [] = Val []"
| "mapR f (x # xs) = bindR (f x) (\<lambda>y. bindR (mapR f xs) (\<lambda>ys. Val (y # ys)))"

definition rowDayName :: "jsval \<Rightarrow> string res" where
  \<comment> \<open>\<^verbatim>\<open>(row[0] || '').toString().trim()\<close>\<close>
  "rowDayName row =
     bindR (getIdx row 0) (\<lambda>r0.
     bindR (callToString (orElse r0 (Str []))) (\<lambda>s. Val (trimJS s)))"

definition isDayRow :: "weekday \<Rightarrow> jsval \<Rightarrow> bool res" where
  \<comment> \<open>the test of \<^verbatim>\<open>schedule.rows.find\<close> at lines 2720 and 2758\<close>
  "isDayRow d row =
     bindR (rowDayName row) (\<lambda>n. Val (n \<noteq> [] \<and> toLowerJS n = toLowerJS (dayName d)))"

definition todayTaskOfRow :: "weekday \<Rightarrow> jsval \<Rightarrow> (jsval \<times> jsval) list res" where
  \<comment> \<open>lines 2701-2709; \<^verbatim>\<open>charAt\<close> is a TypeError on anything but a string\<close>
  "todayTaskOfRow d row =
     bindR (getProp row ''day'') (\<lambda>day.
       case orElse day (Str []) of
         Str s \<Rightarrow>
           bindR (getProp row ''time'') (\<lambda>t.
           bindR (getProp row ''task'') (\<lambda>k.
             Val (if capitalize s = dayName d \<and> truthy t \<and> truthy k then [(t, k)] else [])))
       | _ \<Rightarrow> Throw TypeError)"

definition newFormatToday :: "weekday \<Rightarrow> jsval list \<Rightarrow> (jsval \<times> jsval) list res" where
  "newFormatToday d rows = bindR (mapR (todayTaskOfRow d) rows) (\<lambda>ts. Val (concat ts))"

definition todayTaskOfColumn :: "jsval \<Rightarrow> nat \<times> jsval \<Rightarrow> (jsval \<times> jsval) list res" where
  \<comment> \<open>lines 2729-2737, one call of the \<^verbatim>\<open>forEach\<close> over the headers\<close>
  "todayTaskOfColumn dayRow ct =
     (case ct of (colIndex, time) \<Rightarrow>
        if colIndex > 0 then
          bindR (getIdx dayRow colIndex) (\<lambda>cell.
            if truthy cell then
              bindR (toStringJS time) (\<lambda>_.
              bindR (toStringJS cell) (\<lambda>_. Val [(time, cell)]))
            else Val [])
        else Val [])"

definition legacyToday :: "weekday \<Rightarrow> jsval list \<Rightarrow> jsval list \<Rightarrow> (jsval \<times> jsval) list res" where
  \<comment> \<open>lines 2715-2740\<close>
  "legacyToday d hs rows =
     bindR (forEachR (\<lambda>row. bindR (rowDayName row) (\<lambda>_. Val ())) rows) (\<lambda>_.
     bindR (findR (isDayRow d) rows) (\<lambda>found.
       case found of
         None \<Rightarrow> Val []
       | Some dayRow \<Rightarrow>
           bindR (mapR (todayTaskOfColumn dayRow) (zip [0..<length hs] hs)) (\<lambda>ts.
             Val (concat ts))))"

definition printLegacy :: "weekday \<Rightarrow> jsval list \<Rightarrow> jsval list \<Rightarrow> unit res" where
  \<comment> \<open>lines 2757-2774; \<^verbatim>\<open>padEnd\<close> is a TypeError on anything but a string\<close>
  "printLegacy d hs rows =
     bindR (findR (isDayRow d) rows) (\<lambda>found.
       case found of
         None \<Rightarrow> Val ()
       | Some dayRow \<Rightarrow>
           forEachR (\<lambda>i.
             bindR (getIdx dayRow (i + 1)) (\<lambda>cell.
               case orElse (hs ! (i + 1)) (Str []) of
                 Str time \<Rightarrow> bindR (toStringJS (orElse cell (Str []))) (\<lambda>_. Val ())
               | _ \<Rightarrow> Throw TypeError))
             [0..<length hs - 1])"

definition printNew :: "(jsval \<times> jsval) list \<Rightarrow> unit res" where
  \<comment> \<open>lines 2776-2788.  The comparison function of the sort calls \<^verbatim>\<open>toLowerCase\<close> on
      the time of every entry when there are two or more, the loop after it calls
      \<^verbatim>\<open>padEnd\<close> on the time of every entry: both are a TypeError on anything but a
      string, so the order of the sorted list does not matter here.\<close>
  "printNew ts =
     forEachR (\<lambda>tk. case tk of (t, k) \<Rightarrow>
                 if isStr t then bindR (toStringJS k) (\<lambda>_. Val ()) else Throw TypeError) ts"

definition logCurrentDay :: "weekday \<Rightarrow> user \<Rightarrow> unit res" where
  "logCurrentDay d u =
     (let s = orElse (schedule u) (Obj []) in
      bindR (getProp s ''rows'') (\<lambda>rows.
      bindR (getProp s ''headers'') (\<lambda>headers.
        case rows of
          Arr xs \<Rightarrow>
            bindR (case xs of
                     [] \<Rightarrow> Val False
                   | r0 # _ \<Rightarrow> if typeofObject r0 then hasDayKey ''day'' r0 else Val False)
              (\<lambda>isNewFormat.
            bindR (if isNewFormat then newFormatToday d xs
                   else case headers of
                          Arr hs \<Rightarrow> if xs \<noteq> [] then legacyToday d hs xs else Val []
                        | _ \<Rightarrow> Val [])
              (\<lambda>currentDayTasks.
                if currentDayTasks = [] then Val ()
                else case headers of
                       Arr hs \<Rightarrow> printLegacy d hs xs
                     | _ \<Rightarrow> printNew currentDayTasks))
        | _ \<Rightarrow> Val ())))"

subsection \<open>Fifth pass: the log of the whole schedule (lines 2799-2899)\<close>

definition groupByDay :: "jsval \<Rightarrow> unit res" where
  \<comment> \<open>lines 2808-2818; \<^verbatim>\<open>row.day\<close> becomes a property key of \<^verbatim>\<open>daysMap\<close>\<close>
  "groupByDay row =
     bindR (rowComplete row) (\<lambda>complete.
       if complete then
         bindR (getProp row ''day'') (\<lambda>d.
         bindR (toStringJS d) (\<lambda>key. pushDaysMap key))
       else Val ())"

definition logCell :: "jsval \<Rightarrow> nat \<times> jsval \<Rightarrow> unit res" where
  \<comment> \<open>lines 2861-2877, one call of the \<^verbatim>\<open>forEach\<close> over the cells of a row\<close>
  "logCell headers it =
     (case it of (taskIndex, cell) \<Rightarrow>
        if truthy cell then
          bindR (if truthy headers then getIdx headers taskIndex else Val Undefined) (\<lambda>h.
          bindR (toStringJS
                   (if truthy h then h
                    else Str (if taskIndex = 0 then ''00:00'' else ''Task '' @ showNat taskIndex)))
            (\<lambda>_.
          bindR (toStringJS cell) (\<lambda>_. Val ())))
        else Val ())"

definition logRow :: "jsval \<Rightarrow> jsval \<Rightarrow> unit res" where
  \<comment> \<open>lines 2845-2880\<close>
  "logRow headers row =
     (if \<not> truthy row then Val ()
      else
        bindR (getProp row ''time'') (\<lambda>t.
        bindR (getProp row ''task'') (\<lambda>k.
          if truthy t \<and> truthy k then
            bindR (toStringJS t) (\<lambda>_. bindR (toStringJS k) (\<lambda>_. Val ()))
          else case row of
                 Arr cells \<Rightarrow> forEachR (logCell headers) (zip [0..<length cells] cells)
               | _ \<Rightarrow> Val ())))"

definition logUserSchedule :: "user \<Rightarrow> unit res" where
  "logUserSchedule u =
     (if \<not> truthy (schedule u) then Val ()
      else
        bindR (getProp (schedule u) ''rows'') (\<lambda>rows.
        bindR (getProp (schedule u) ''headers'') (\<lambda>headers.
          case rows of
            Arr xs \<Rightarrow> bindR (forEachR groupByDay xs) (\<lambda>_. forEachR (logRow headers) xs)
          | _ \<Rightarrow> Val ())))"

subsection \<open>Sixth pass: the loop that sends the reminders (lines 2908-3388)\<close>

datatype coerced = NoRows | Circular | Rows "jsval list" jsval

definition coerceSchedule :: "user \<Rightarrow> coerced" where
  \<comment> \<open>lines 2913-2939.  \<open>Rows rows headers\<close> is a schedule with a non-empty array
      \<^verbatim>\<open>rows\<close>.  \<open>Circular\<close> is the object whose \<^verbatim>\<open>rows\<close> was set to
      \<^verbatim>\<open>[schedule]\<close>, an array that contains the object itself.  The module is not in
      strict mode, so the assignment to a property of a primitive value does nothing.\<close>
  "coerceSchedule u =
     (let s = orElse (weeklySchedule u) (schedule u) in
      if \<not> truthy s then NoRows
      else case s of
        Arr xs \<Rightarrow> if xs = [] then NoRows else Rows xs (Arr [])
      | Obj kvs \<Rightarrow>
          (let rows = (case map_of kvs ''rows'' of None \<Rightarrow> Undefined | Some r \<Rightarrow> r);
               headers = (case map_of kvs ''headers'' of None \<Rightarrow> Undefined | Some h \<Rightarrow> h)
           in case rows of
                Arr xs \<Rightarrow> if xs = [] then NoRows else Rows xs headers
              | _ \<Rightarrow> if truthy rows then Rows [rows] headers else Circular)
      | _ \<Rightarrow> NoRows)"

definition currentDayRow :: "weekday \<Rightarrow> jsval list \<Rightarrow> jsval" where
  \<comment> \<open>line 2969: \<^verbatim>\<open>schedule.rows[targetRowIndex] || schedule.rows[0]\<close>, where
      \<^verbatim>\<open>targetRowIndex\<close> is \<^verbatim>\<open>nextMinute.getDay()\<close>\<close>
  "currentDayRow d rows =
     orElse (if getDay d < length rows then rows ! getDay d else Undefined)
            (case rows of [] \<Rightarrow> Undefined | r0 # _ \<Rightarrow> r0)"

definition isNewFormat :: "jsval \<Rightarrow> bool res" where
  \<comment> \<open>lines 2971-2974\<close>
  "isNewFormat row =
     (if \<not> typeofObject row then Val False
      else
        bindR (hasDayKey ''day'' row) (\<lambda>a.
          if a then Val True
          else bindR (hasDayKey ''Day'' row) (\<lambda>b.
            if b then Val True
            else bindR (getProp row ''Time'') (\<lambda>t.
                 bindR (getProp row ''Task'') (\<lambda>k. Val (truthy t \<and> truthy k))))))"

definition logRowKeys :: "jsval \<Rightarrow> unit res" where
  \<comment> \<open>line 3186: \<^verbatim>\<open>Object.keys(row)\<close>\<close>
  "logRowKeys row = (if nullish row then Throw TypeError else Val ())"

fun firstTruthy :: "jsval list \<Rightarrow> jsval" where
  "firstTruthy [] = Undefined"
| "firstTruthy [v] = v"
| "firstTruthy (v # vs) = (if truthy v then v else firstTruthy vs)"

definition readFirst :: "jsval \<Rightarrow> string list \<Rightarrow> nat \<Rightarrow> jsval res" where
  \<comment> \<open>\<^verbatim>\<open>row.k1 || row.k2 || ... || row[i] || ''\<close>\<close>
  "readFirst row keys i =
     bindR (mapR (getProp row) keys) (\<lambda>vs.
     bindR (getIdx row i) (\<lambda>c. Val (firstTruthy (vs @ [c, Str []]))))"

definition collectRow :: "jsval \<Rightarrow> unit res" where
  \<comment> \<open>lines 3191-3219\<close>
  "collectRow row =
     bindR (readFirst row [''task'', ''Task'', ''text'', ''Text''] 2) (\<lambda>taskText.
     bindR (readFirst row [''day'', ''Day''] 0) (\<lambda>dayValue.
     bindR (readFirst row [''time'', ''Time''] 1) (\<lambda>timeValue.
       if truthy dayValue \<and> truthy timeValue \<and> truthy taskText then
         bindR (callToString dayValue) (\<lambda>ds.
         bindR (callToString timeValue) (\<lambda>_.
         bindR (callToString taskText) (\<lambda>_. pushDaysMap (capitalize ds))))
       else Val ())))"

record slot =
  slotCol :: nat
  slotHours :: int
  slotMinutes :: int
  slotText :: string

definition headerCount :: "jsval \<Rightarrow> nat res" where
  \<comment> \<open>how often the loop \<^verbatim>\<open>for (let col = 0; col < schedule.headers.length; col++)\<close>
      runs\<close>
  "headerCount headers =
     bindR (getProp headers ''length'') (\<lambda>len.
     bindR (toNumberJS len) (\<lambda>n. Val (case n of None \<Rightarrow> 0 | Some k \<Rightarrow> nat k)))"

definition cellAt :: "jsval list \<Rightarrow> nat \<Rightarrow> jsval" where
  \<comment> \<open>\<^verbatim>\<open>daySchedule[col]\<close>\<close>
  "cellAt cells c = (if c < length cells then cells ! c else Undefined)"

definition slotAt :: "jsval \<Rightarrow> jsval list \<Rightarrow> nat \<Rightarrow> slot option res" where
  \<comment> \<open>lines 3272-3327, one round of the loop with its own handler; \<open>None\<close> when the
      round ends without a push to \<^verbatim>\<open>timeSlots\<close>.  The handler prints
      \<^verbatim>\<open>${timeString}\<close>, which throws again for a header without a primitive value.\<close>
  "slotAt headers cells c =
     bindR (getIdx headers c) (\<lambda>timeString.
       if \<not> truthy timeString then Val None
       else catchR
              (case timeString of
                 Str s \<Rightarrow>
                   (case parseTimeSlot s of
                      None \<Rightarrow> Val None
                    | Some (h, m) \<Rightarrow>
                        bindR (callToString (orElse (cellAt cells c) (Str []))) (\<lambda>t.
                          Val (Some \<lparr>slotCol = c, slotHours = h, slotMinutes = m,
                                     slotText = trimJS t\<rparr>)))
               | _ \<Rightarrow> Throw TypeError)
              (\<lambda>e. bindR (toStringJS timeString) (\<lambda>_. Val None)))"

definition timeSlots :: "jsval \<Rightarrow> jsval list \<Rightarrow> slot list res" where
  "timeSlots headers cells =
     bindR (headerCount headers) (\<lambda>n.
     bindR (mapR (slotAt headers cells) [0..<n]) (\<lambda>os. Val (List.map_filter id os)))"

definition sortSlots :: "slot list \<Rightarrow> slot list" where
  \<comment> \<open>lines 3331-3334: \<^verbatim>\<open>timeSlots.sort\<close> by hours, then minutes;
      \<^verbatim>\<open>Array.prototype.sort\<close> is stable\<close>
  "sortSlots slots = sort_key (\<lambda>s. (slotHours s, slotMinutes s)) slots"

definition dueTexts :: "clock \<Rightarrow> slot list \<Rightarrow> string list" where
  \<comment> \<open>the texts for which the loop of lines 3338-3381 reaches \<^verbatim>\<open>sendWhatsAppReminder\<close>\<close>
  "dueTexts clk slots =
     map slotText
       (filter (\<lambda>s. slotText s \<noteq> [])
          (filter (\<lambda>s. slotHours s = int (targetHour clk) \<and> slotMinutes s = int (targetMinute clk))
             (sortSlots slots)))"

definition dispatch :: "(string \<Rightarrow> string \<Rightarrow> bool) \<Rightarrow> user \<Rightarrow> string \<Rightarrow> bool" where
  \<comment> \<open>\<^verbatim>\<open>await sendWhatsAppReminder(currentUser.phone, taskText, triggeredDateTime)\<close>.
      The function answers \<^verbatim>\<open>false\<close> for a missing phone number (line 360); \<open>send\<close>
      stands for the rest of it (lines 365-527): it cleans the number, posts one template
      message with this one text and answers whether the message was accepted, and
      \<^verbatim>\<open>false\<close> when the request throws.\<close>
  "dispatch send u text =
     (case phone u of None \<Rightarrow> False | Some p \<Rightarrow> if p = [] then False else send p text)"

datatype outcome = Skipped | Caught error | Sent "(string \<times> bool) list"

text \<open>
  What the loop does for one user: \<open>Skipped\<close> is a \<^verbatim>\<open>continue\<close>, \<open>Caught e\<close> the handler
  of line 3385, \<open>Sent xs\<close> the end of the body after one call of
  \<^verbatim>\<open>sendWhatsAppReminder\<close> for each text of \<open>xs\<close>, with the answer of the call.
\<close>

definition processBody :: "(string \<Rightarrow> string \<Rightarrow> bool) \<Rightarrow> clock \<Rightarrow> user \<Rightarrow> outcome res" where
  "processBody send clk u =
     (case coerceSchedule u of
        NoRows \<Rightarrow> Val Skipped
      | Circular \<Rightarrow> Throw TypeError
      | Rows rows headers \<Rightarrow>
          bindR (isNewFormat (currentDayRow (targetDay clk) rows)) (\<lambda>new.
            if new then Throw ReferenceError
            else
              bindR (forEachR logRowKeys rows) (\<lambda>_.
              bindR (forEachR collectRow rows) (\<lambda>_.
                if dayToRowIndex (targetDay clk) \<ge> length rows then Val Skipped
                else case rows ! dayToRowIndex (targetDay clk) of
                       Arr cells \<Rightarrow>
                         bindR (timeSlots headers cells) (\<lambda>slots.
                           Val (Sent (map (\<lambda>t. (t, dispatch send u t)) (dueTexts clk slots))))
                     | _ \<Rightarrow> Val Skipped))))"

text \<open>
  \<open>Circular\<close>: \<^verbatim>\<open>JSON.stringify(schedule.rows[0])\<close> at line 2942 is a TypeError on a
  circular structure.  The branch for the new format evaluates \<^verbatim>\<open>row.day\<close> at line
  3016, where no variable \<^verbatim>\<open>row\<close> is in scope: a ReferenceError; nothing before it
  in the branch can throw.
\<close>

definition processUser :: "(string \<Rightarrow> string \<Rightarrow> bool) \<Rightarrow> clock \<Rightarrow> user \<Rightarrow> outcome res" where
  \<comment> \<open>the body of the loop inside \<^verbatim>\<open>try { ... } catch (userError) { ... }\<close>\<close>
  "processUser send clk u = catchR (processBody send clk u) (\<lambda>e. Val (Caught e))"

subsection \<open>The whole cycle\<close>

datatype cycleResult =
    Aborted error
  | NoUsers
  | Ran "(user \<times> outcome) list"
  | NotModelled

text \<open>
  \<open>Aborted e\<close>: the handler of line 3389 caught \<open>e\<close> before the loop started, and no
  user was processed.  \<open>NoUsers\<close>: the \<^verbatim>\<open>return\<close> of line 2664.  \<open>Ran xs\<close>: the loop
  went through the selected users, in order, with these outcomes.
\<close>

definition prologue :: "user list \<Rightarrow> user list res" where
  \<comment> \<open>lines 2545-2660: the first three passes; the result is the list \<^verbatim>\<open>users\<close>\<close>
  "prologue allUsers = bindR (forEachR logUser allUsers) (\<lambda>_. selectUsers allUsers)"

definition reminderLoop ::
    "(string \<Rightarrow> string \<Rightarrow> bool) \<Rightarrow> clock \<Rightarrow> user list \<Rightarrow> (user \<times> outcome) list res" where
  \<comment> \<open>\<^verbatim>\<open>for (const currentUser of users) { try { ... } catch (userError) { ... } }\<close>\<close>
  "reminderLoop send clk selected =
     mapR (\<lambda>u. bindR (processUser send clk u) (\<lambda>out. Val (u, out))) selected"

definition afterSelection ::
    "(string \<Rightarrow> string \<Rightarrow> bool) \<Rightarrow> clock \<Rightarrow> user list \<Rightarrow> (user \<times> outcome) list res" where
  \<comment> \<open>lines 2667-3388: the two logging passes over the selected users, then the loop\<close>
  "afterSelection send clk selected =
     bindR (forEachR (logCurrentDay (today clk)) selected) (\<lambda>_.
     bindR (forEachR logUserSchedule selected) (\<lambda>_.
     reminderLoop send clk selected))"

fun outerCatch :: "(user \<times> outcome) list res \<Rightarrow> cycleResult" where
  \<comment> \<open>the handler of line 3389\<close>
  "outerCatch (Val outs) = Ran outs"
| "outerCatch (Throw e) = Aborted e"
| "outerCatch Unmodelled = NotModelled"

definition minuteJob :: "(string \<Rightarrow> string \<Rightarrow> bool) \<Rightarrow> clock \<Rightarrow> user list \<Rightarrow> cycleResult" where
  "minuteJob send clk allUsers =
     (case prologue allUsers of
        Throw e \<Rightarrow> Aborted e
      | Unmodelled \<Rightarrow> NotModelled
      | Val selected \<Rightarrow>
          if selected = [] then NoUsers else outerCatch (afterSelection send clk selected))"

definition minuteCycle ::
    "(string \<Rightarrow> string \<Rightarrow> bool) \<Rightarrow> clock \<Rightarrow> store \<Rightarrow> store \<times> cycleResult" where
  \<comment> \<open>the job on the database: it loads the users with \<^verbatim>\<open>User.find({})\<close>, never
      reads the \<^verbatim>\<open>Task\<close> collection and never saves a document\<close>
  "minuteCycle send clk st = (st, minuteJob send clk (users st))"

fun sentTexts :: "cycleResult \<Rightarrow> string list" where
  \<comment> \<open>every text handed to \<^verbatim>\<open>sendWhatsAppReminder\<close> in a cycle, in order\<close>
  "sentTexts (Ran outs) =
     concat (map (\<lambda>uo. case snd uo of Sent xs \<Rightarrow> map fst xs | _ \<Rightarrow> []) outs)"
| "sentTexts r = []"

definition dueTask :: "clock \<Rightarrow> nat \<Rightarrow> task \<Rightarrow> bool" where
  \<comment> \<open>the tasks the specification wants merged into the due-set of user \<open>i\<close>\<close>
  "dueTask clk i t \<longleftrightarrow>
     taskUser t = i \<and> \<not> completed t \<and> \<not> oneMinuteReminderSent t \<and>
     nowMs clk \<le> dueDate t \<and> dueDate t \<le> nowMs clk + 60000"


section \<open>The list of tasks of \<^verbatim>\<open>/api/tasks/list\<close>\<close>

record listedTask =
  ltDay :: string
  ltTime :: string
  ltTask :: string

definition taskKey :: "listedTask \<Rightarrow> string" where
  \<comment> \<open>line 2429: \<^verbatim>\<open>`${task.day}-${task.time}`.toLowerCase()\<close>\<close>
  "taskKey t = toLowerJS (ltDay t @ ''-'' @ ltTime t)"

fun uniqueFrom :: "string list \<Rightarrow> listedTask list \<Rightarrow> listedTask list" where
  \<comment> \<open>the loop of lines 2428-2434 with the set \<^verbatim>\<open>seen\<close> as first argument\<close>
  "uniqueFrom seen [] = []"
| "uniqueFrom seen (t # ts) =
     (if taskKey t \<in> set seen then uniqueFrom seen ts
      else t # uniqueFrom (taskKey t # seen) ts)"

definition uniqueTasks :: "listedTask list \<Rightarrow> listedTask list" where
  \<comment> \<open>lines 2424-2434, on \<^verbatim>\<open>allTasks\<close> as the sort of line 2416 leaves it\<close>
  "uniqueTasks allTasks = uniqueFrom [] allTasks"

section \<open>Schedules and users for the statements below\<close>

text \<open>
  The grid the dashboard sends (\<^verbatim>\<open>saveSchedule\<close> in
  \<^verbatim>\<open>src/public/notification-component.js\<close>) has one row for each day and no column
  of day names: all headers and all cells are strings.
\<close>

definition gridSchedule :: "string list \<Rightarrow> string list list \<Rightarrow> jsval" where
  "gridSchedule headers rows =
     Obj [(''headers'', Arr (map Str headers)),
          (''rows'', Arr (map (\<lambda>cells. Arr (map Str cells)) rows))]"

definition cellText :: "string list \<Rightarrow> nat \<Rightarrow> string" where
  \<comment> \<open>\<^verbatim>\<open>(daySchedule[col] || '').toString().trim()\<close> on a row of strings\<close>
  "cellText cells c = (if c < length cells then trimJS (cells ! c) else [])"

definition gridDue :: "clock \<Rightarrow> string list \<Rightarrow> string list \<Rightarrow> string list" where
  \<comment> \<open>the cells of a row whose header, at the same index, is the target time\<close>
  "gridDue clk headers cells =
     concat (map (\<lambda>c. if parseTimeSlot (headers ! c) = Some (int (targetHour clk), int (targetMinute clk))
                         \<and> cellText cells c \<noteq> []
                      then [cellText cells c] else [])
                 [0..<length headers])"

definition protoRow :: "string list \<Rightarrow> bool" where
  \<comment> \<open>a row whose first three cells are filled and whose first cell, capitalised, names
      an inherited property of \<^verbatim>\<open>daysMap\<close> (in effect \<^verbatim>\<open>__proto__\<close>): line 3216
      throws on it\<close>
  "protoRow cells =
     (case cells of
        d # t # k # _ \<Rightarrow> d \<noteq> [] \<and> t \<noteq> [] \<and> k \<noteq> [] \<and> capitalize d \<in> set objectPrototypeKeys
      | _ \<Rightarrow> False)"

fun isObj :: "jsval \<Rightarrow> bool" where
  "isObj (Obj kvs) = True"
| "isObj v = False"




definition alwaysDelivered :: "string \<Rightarrow> string \<Rightarrow> bool" where
  \<comment> \<open>a transport that accepts every message\<close>
  "alwaysDelivered p t = True"

definition mondayAt :: "nat \<Rightarrow> nat \<Rightarrow> clock" where
  \<comment> \<open>a cycle that runs on a Monday, one minute before \<open>h:m\<close>\<close>
  "mondayAt h m =
     \<lparr>nowMs = 0, today = Monday, targetDay = Monday, targetHour = h, targetMinute = m\<rparr>"

definition userWith :: "jsval \<Rightarrow> user" where
  \<comment> \<open>a verified user with a phone number and no WhatsApp setting\<close>
  "userWith s =
     \<lparr>phone = Some ''919876543210'', isVerified = Some True, whatsapp = None,
      schedule = s, weeklySchedule = Undefined\<rparr>"

definition dayColumnUser :: user where
  \<comment> \<open>the grid of the specification's scenario, with the day name as first cell\<close>
  "dayColumnUser = userWith (gridSchedule [''9:00 AM'', ''10:00 AM''] [[''Monday'', ''Standup'', ''Review'']])"

definition positionalUser :: user where
  \<comment> \<open>the same schedule in the layout of the dashboard: row 0 is Monday\<close>
  "positionalUser = userWith (gridSchedule [''9:00 AM'', ''10:00 AM''] [[''Standup'', ''Review'']])"

definition twoDueUser :: user where
  \<comment> \<open>two headers for the same minute\<close>
  "twoDueUser = userWith (gridSchedule [''9:00 AM'', ''09:00''] [[''Standup'', ''Review'']])"


definition nullRowUser :: user where
  \<comment> \<open>a grid with a row that is \<^verbatim>\<open>null\<close>\<close>
  "nullRowUser = userWith (Obj [(''headers'', Arr [Str ''9:00 AM'']), (''rows'', Arr [Null])])"

definition gapRowUser :: user where
  \<comment> \<open>a grid whose third row is \<^verbatim>\<open>null\<close>, as the job reads it\<close>
  "gapRowUser = userWith (loadedSchedule [''9:00 AM'']
     [Arr [Str ''Standup''], Arr [Str ''Review''], Null])"


definition rentTask :: task where
  \<comment> \<open>an open task of user 0, due thirty seconds after \<open>nowMs = 0\<close>, not yet reminded\<close>
  "rentTask =
     \<lparr>taskUser = 0, taskText = ''Pay rent'', completed = False, dueDate = 30000,
      reminderSent = False, oneMinuteReminderSent = False\<rparr>"

definition standupA :: listedTask where
  "standupA = \<lparr>ltDay = ''Monday'', ltTime = ''9:00 AM'', ltTask = ''A''\<rparr>"

definition standupB :: listedTask where
  "standupB = \<lparr>ltDay = ''Monday'', ltTime = ''9:00 AM'', ltTask = ''B''\<rparr>"


section \<open>Lemmas on time strings\<close>

lemma isDigit_cases: "isDigit c \<longleftrightarrow> c = CHR ''0'' \<or> c = CHR ''1'' \<or> c = CHR ''2'' \<or> c = CHR ''3'' \<or> c = CHR ''4''
   \<or> c = CHR ''5'' \<or> c = CHR ''6'' \<or> c = CHR ''7'' \<or> c = CHR ''8'' \<or> c = CHR ''9''"
  by (auto simp: isDigit_def)

lemma isDigit_not_space: "isDigit c \<Longrightarrow> \<not> isSpaceJS c"
  by (auto simp: isDigit_cases isSpaceJS_def)

lemma isDigit_not_sign: "isDigit c \<Longrightarrow> c \<noteq> CHR ''-'' \<and> c \<noteq> CHR ''+'' \<and> c \<noteq> CHR '':''"
  by (auto simp: isDigit_cases)

lemma isDigit_timeChar: "isDigit c \<Longrightarrow> isTimeChar c"
  by (simp add: isTimeChar_def)

lemma space_not_timeChar: "isSpaceJS c \<Longrightarrow> \<not> isTimeChar c"
  by (auto simp: isTimeChar_def isDigit_cases isSpaceJS_def)

lemma digitChar_props: "d < 10 \<Longrightarrow> isDigit (digitChar d) \<and> digitVal (digitChar d) = d"
  unfolding digitVal_def digitChar_def isDigit_def
  by (simp add: less_Suc_eq numeral_eq_Suc) (elim disjE; simp)

lemma parseIntJS_digits: 
  assumes "digitStr ds" shows "parseIntJS ds = Some (int (digitsVal ds))"
proof -
  from assms obtain c cs where ds: "ds = c # cs" and c: "isDigit c" and all: "\<forall>x\<in>set ds. isDigit x"
    by (cases ds) (auto simp: digitStr_def)
  have dw: "dropWhile isSpaceJS ds = ds" using ds c isDigit_not_space by simp
  have tw: "takeWhile isDigit ds = ds" using all by (simp add: takeWhile_eq_all_conv)
  have hd: "hd ds \<noteq> CHR ''-''" "hd ds \<noteq> CHR ''+''" "ds \<noteq> []"
    using ds isDigit_not_sign[OF c] by simp_all
  show ?thesis unfolding parseIntJS_def dw by (simp add: Let_def hd tw)
qed

lemma digitsVal_snoc: "digitsVal (ds @ [c]) = 10 * digitsVal ds + digitVal c"
  by (simp add: digitsVal_def)

lemma showNat_digits: "digitStr (showNat n) \<and> digitsVal (showNat n) = n"
proof (induction n rule: showNat.induct)
  case (1 n)
  show ?case
  proof (cases "n < 10")
    case True
    then show ?thesis using digitChar_props[of n] by (simp add: showNat.simps[of n] digitStr_def digitsVal_def)
  next
    case False
    have m: "n mod 10 < 10" by simp
    from False 1 have ih: "digitStr (showNat (n div 10))" "digitsVal (showNat (n div 10)) = n div 10" by auto
    show ?thesis using False ih digitChar_props[OF m]
      by (simp add: showNat.simps[of n] digitsVal_snoc digitStr_def)
  qed
qed

lemma showNat_length: "n < 100 \<Longrightarrow> length (showNat n) \<le> 2"
proof -
  assume "n < 100"
  then have "n div 10 < 10" by simp
  then show ?thesis by (simp add: showNat.simps[of n] showNat.simps[of "n div 10"])
qed

lemma splitAcc_nosep: "sep \<notin> set xs \<Longrightarrow> splitAcc sep acc xs = [rev acc @ xs]"
  by (induction xs arbitrary: acc) auto

lemma splitAcc_sep: "sep \<notin> set xs \<Longrightarrow> splitAcc sep acc (xs @ sep # rest) = (rev acc @ xs) # splitAcc sep [] rest"
  by (induction xs arbitrary: acc) auto

lemma digitStr_nocolon: "digitStr s \<Longrightarrow> CHR '':'' \<notin> set s"
  using isDigit_not_sign by (auto simp: digitStr_def)

lemma hoursMinutes_hm: "digitStr hs \<Longrightarrow> digitStr ms \<Longrightarrow>
   hoursMinutes (hs @ '':'' @ ms) = (Some (int (digitsVal hs)), Some (int (digitsVal ms)))"
  using splitAcc_sep[of "CHR '':''" hs "[]" ms] splitAcc_nosep[of "CHR '':''" ms "[]"]
  by (auto simp: hoursMinutes_def splitJS_def digitStr_nocolon parseIntJS_digits digitStr_def)

lemma hoursMinutes_h: "digitStr hs \<Longrightarrow>
   hoursMinutes hs = (Some (int (digitsVal hs)), Some 0)"
  using splitAcc_nosep[of "CHR '':''" hs "[]"] parseIntJS_digits[of "''0''"]
  by (auto simp: hoursMinutes_def splitJS_def digitStr_nocolon parseIntJS_digits digitStr_def isDigit_def digitsVal_def digitVal_def)


lemma trimJS_id: "s \<noteq> [] \<Longrightarrow> \<not> isSpaceJS (hd s) \<Longrightarrow> \<not> isSpaceJS (last s) \<Longrightarrow> trimJS s = s"
proof -
  assume a: "s \<noteq> []" "\<not> isSpaceJS (hd s)" "\<not> isSpaceJS (last s)"
  then have 1: "dropWhile isSpaceJS s = s" by (cases s) auto
  from a have 2: "dropWhile isSpaceJS (rev s) = rev s" by (cases "rev s") (auto simp: last_rev hd_rev)
  show ?thesis by (simp add: trimJS_def 1 2)
qed

lemma trimJS_digits_front: "digitStr hs \<Longrightarrow> \<not> isSpaceJS (last (hs @ t)) \<Longrightarrow> trimJS (hs @ t) = hs @ t"
  by (rule trimJS_id) (auto simp: digitStr_def isDigit_not_space hd_append)

lemma dropWhile_all: "\<forall>c\<in>set xs. P c \<Longrightarrow> dropWhile P (xs @ ys) = dropWhile P ys"
  by (induction xs) auto

lemma takeWhile_all: "\<forall>c\<in>set xs. P c \<Longrightarrow> takeWhile P (xs @ ys) = xs @ takeWhile P ys"
  by (induction xs) auto

lemma periodMatch_run:
  assumes run: "run \<noteq> []" "\<forall>c\<in>set run. isTimeChar c"
      and ws: "\<forall>c\<in>set ws. isSpaceJS c"
      and p: "p \<in> set ''APap''"
  shows "periodMatch (run @ ws @ p # q) =
           Some (run, p # (case q of [] \<Rightarrow> [] | m # _ \<Rightarrow> if m \<in> set ''Mm'' then [m] else []))"
proof -
  from run obtain c cs where rc: "run = c # cs" by (cases run) auto
  have pt: "\<not> isTimeChar p" "\<not> isSpaceJS p" using p by (auto simp: isTimeChar_def isDigit_def isSpaceJS_def)
  have wt: "\<forall>c\<in>set ws. \<not> isTimeChar c" using ws space_not_timeChar by blast
  have d1: "dropWhile isTimeChar (run @ ws @ p # q) = ws @ p # q"
    using dropWhile_all[OF run(2), of "ws @ p # q"] wt pt by (cases ws) auto
  have d2: "dropWhile isSpaceJS (ws @ p # q) = p # q"
    using dropWhile_all[OF ws, of "p # q"] pt by simp
  have t1: "takeWhile isTimeChar (run @ ws @ p # q) = run"
    using takeWhile_all[OF run(2), of "ws @ p # q"] wt pt by (cases ws) auto
  have c: "isTimeChar c" using run rc by simp
  have "periodMatch (c # (cs @ ws @ p # q)) = 
      Some (takeWhile isTimeChar (c # (cs @ ws @ p # q)), p # (case q of [] \<Rightarrow> [] | m # _ \<Rightarrow> if m \<in> set ''Mm'' then [m] else []))"
    using d1 d2 p c unfolding rc by (simp del: set_simps dropWhile.simps takeWhile.simps)
  then show ?thesis using t1 unfolding rc by simp
qed

lemma periodMatch_none: "\<forall>c\<in>set s. isTimeChar c \<Longrightarrow> periodMatch s = None"
proof (induction s)
  case Nil
  then show ?case by simp
next
  case (Cons c cs)
  then have d: "dropWhile isTimeChar (c # cs) = []" by simp
  have "periodMatch (c # cs) = periodMatch cs"
    unfolding periodMatch.simps d by simp
  with Cons show ?case by simp
qed

lemma not_space_M: "\<not> isSpaceJS (CHR ''M'')" "\<not> isSpaceJS (CHR ''m'')" "\<not> isSpaceJS (CHR ''A'')" "\<not> isSpaceJS (CHR ''a'')"
  "\<not> isSpaceJS (CHR ''P'')" "\<not> isSpaceJS (CHR ''p'')"
  by (simp_all add: isSpaceJS_def)

lemma suffix_shape:
  assumes "suf \<in> set (amSuffixes @ pmSuffixes)"
  shows "\<exists>p q. suf = p # q \<and> p \<in> set ''APap'' \<and>
     (case q of [] \<Rightarrow> [] | m # _ \<Rightarrow> if m \<in> set ''Mm'' then [m] else []) = q \<and> \<not> isSpaceJS (last suf)"
  using assms unfolding amSuffixes_def pmSuffixes_def append.simps list.set insert_iff empty_iff
  by (elim disjE) (simp_all add: not_space_M)

lemma parse_suffixed:
  assumes hs: "digitStr hs" and ms: "digitStr ms" and ws: "\<forall>c\<in>set ws. isSpaceJS c"
      and suf: "suf \<in> set (amSuffixes @ pmSuffixes)"
  shows "splitPeriod (hs @ '':'' @ ms @ ws @ suf) = (hs @ '':'' @ ms, normPeriod (toUpperAscii suf))"
    and "splitPeriod (hs @ ws @ suf) = (hs, normPeriod (toUpperAscii suf))"
proof -
  from suffix_shape[OF suf] obtain p q where pq: "suf = p # q" "p \<in> set ''APap''" 
     "(case q of [] \<Rightarrow> [] | m # _ \<Rightarrow> if m \<in> set ''Mm'' then [m] else []) = q" "\<not> isSpaceJS (last suf)"
    by blast
  have run1: "hs @ '':'' @ ms \<noteq> []" "\<forall>c\<in>set (hs @ '':'' @ ms). isTimeChar c"
    using hs ms by (auto simp: digitStr_def isTimeChar_def)
  have run2: "hs \<noteq> []" "\<forall>c\<in>set hs. isTimeChar c"
    using hs by (auto simp: digitStr_def isTimeChar_def)
  have tr1: "trimJS (hs @ '':'' @ ms @ ws @ suf) = hs @ '':'' @ ms @ ws @ suf"
    using trimJS_digits_front[OF hs, of "'':'' @ ms @ ws @ suf"] pq by simp
  have tr2: "trimJS (hs @ ws @ suf) = hs @ ws @ suf"
    using trimJS_digits_front[OF hs, of "ws @ suf"] pq by simp
  have tr3: "trimJS (hs @ '':'' @ ms) = hs @ '':'' @ ms"
    using trimJS_digits_front[OF hs, of "'':'' @ ms"] ms by (auto simp: digitStr_def isDigit_not_space)
  have tr4: "trimJS hs = hs"
    using trimJS_digits_front[OF hs, of "[]"] hs by (auto simp: digitStr_def isDigit_not_space)
  have m1: "periodMatch ((hs @ '':'' @ ms) @ ws @ p # q) = Some (hs @ '':'' @ ms, p # q)"
    using periodMatch_run[OF run1 ws pq(2), of q] pq(3) by simp
  have m2: "periodMatch (hs @ ws @ p # q) = Some (hs, p # q)"
    using periodMatch_run[OF run2 ws pq(2), of q] pq(3) by simp
  show "splitPeriod (hs @ '':'' @ ms @ ws @ suf) = (hs @ '':'' @ ms, normPeriod (toUpperAscii suf))"
    using m1 tr1 tr3 unfolding splitPeriod_def pq(1) by simp
  show "splitPeriod (hs @ ws @ suf) = (hs, normPeriod (toUpperAscii suf))"
    using m2 tr2 tr4 unfolding splitPeriod_def pq(1) by simp
qed

lemma parse_plain:
  assumes hs: "digitStr hs" and ms: "digitStr ms"
  shows "splitPeriod (hs @ '':'' @ ms) = (hs @ '':'' @ ms, [])"
    and "splitPeriod hs = (hs, [])"
proof -
  have tr3: "trimJS (hs @ '':'' @ ms) = hs @ '':'' @ ms"
    using trimJS_digits_front[OF hs, of "'':'' @ ms"] ms by (auto simp: digitStr_def isDigit_not_space)
  have tr4: "trimJS hs = hs"
    using trimJS_digits_front[OF hs, of "[]"] hs by (auto simp: digitStr_def isDigit_not_space)
  have n1: "periodMatch (hs @ '':'' @ ms) = None"
    using hs ms by (intro periodMatch_none) (auto simp: digitStr_def isTimeChar_def)
  have n2: "periodMatch hs = None"
    using hs by (intro periodMatch_none) (auto simp: digitStr_def isTimeChar_def)
  show "splitPeriod (hs @ '':'' @ ms) = (hs @ '':'' @ ms, [])"
    using tr3 n1 by (simp add: splitPeriod_def)
  show "splitPeriod hs = (hs, [])"
    using tr4 n2 by (simp add: splitPeriod_def)
qed

lemma period_pm: "suf \<in> set pmSuffixes \<Longrightarrow> normPeriod (toUpperAscii suf) = ''PM''"
  unfolding pmSuffixes_def list.set insert_iff empty_iff by (elim disjE) (simp_all add: normPeriod_def toUpperAscii_def upperAsciiChar_def)

lemma period_am: "suf \<in> set amSuffixes \<Longrightarrow> normPeriod (toUpperAscii suf) = ''AM''"
  unfolding amSuffixes_def list.set insert_iff empty_iff by (elim disjE) (simp_all add: normPeriod_def toUpperAscii_def upperAsciiChar_def)

lemma parseTimeSlot_fields:
  "splitPeriod s = (tp, per) \<Longrightarrow> hoursMinutes tp = (Some h, Some m) \<Longrightarrow>
   parseTimeSlot s = (if validTime (to24 per h) m then Some (to24 per h, m) else None)"
  by (simp add: parseTimeSlot_def)

lemma to24_simps:
  "to24 ''PM'' h = (if h < 12 then h + 12 else h)"
  "to24 ''AM'' h = (if h = 12 then 0 else h)"
  "to24 [] h = h"
  by (simp_all add: to24_def)

lemma parse_pm:
  assumes hs: "digitStr hs" and ms: "digitStr ms" and ws: "\<forall>c\<in>set ws. isSpaceJS c"
      and suf: "suf \<in> set pmSuffixes"
  shows "parseTimeSlot (hs @ '':'' @ ms @ ws @ suf) =
           (let h = int (digitsVal hs); m = int (digitsVal ms); h24 = (if h < 12 then h + 12 else h)
            in if h24 > 23 \<or> m > 59 then None else Some (h24, m))"
    and "parseTimeSlot (hs @ ws @ suf) =
           (let h = int (digitsVal hs); h24 = (if h < 12 then h + 12 else h)
            in if h24 > 23 then None else Some (h24, 0))"
proof -
  from suf have suf': "suf \<in> set (amSuffixes @ pmSuffixes)"
    by simp
  show "parseTimeSlot (hs @ '':'' @ ms @ ws @ suf) =
           (let h = int (digitsVal hs); m = int (digitsVal ms); h24 = (if h < 12 then h + 12 else h)
            in if h24 > 23 \<or> m > 59 then None else Some (h24, m))"
    using parseTimeSlot_fields[OF parse_suffixed(1)[OF hs ms ws suf'] hoursMinutes_hm[OF hs ms]]
    by (simp add: period_pm[OF suf] to24_simps validTime_def Let_def)
  show "parseTimeSlot (hs @ ws @ suf) =
           (let h = int (digitsVal hs); h24 = (if h < 12 then h + 12 else h)
            in if h24 > 23 then None else Some (h24, 0))"
    using parseTimeSlot_fields[OF parse_suffixed(2)[OF hs ms ws suf'] hoursMinutes_h[OF hs]]
    by (simp add: period_pm[OF suf] to24_simps validTime_def Let_def)
qed

lemma parse_am:
  assumes hs: "digitStr hs" and ms: "digitStr ms" and ws: "\<forall>c\<in>set ws. isSpaceJS c"
      and suf: "suf \<in> set amSuffixes"
  shows "parseTimeSlot (hs @ '':'' @ ms @ ws @ suf) =
           (let h = int (digitsVal hs); m = int (digitsVal ms); h24 = (if h = 12 then 0 else h)
            in if h24 > 23 \<or> m > 59 then None else Some (h24, m))"
    and "parseTimeSlot (hs @ ws @ suf) =
           (let h = int (digitsVal hs); h24 = (if h = 12 then 0 else h)
            in if h24 > 23 then None else Some (h24, 0))"
proof -
  from suf have suf': "suf \<in> set (amSuffixes @ pmSuffixes)"
    by simp
  show "parseTimeSlot (hs @ '':'' @ ms @ ws @ suf) =
           (let h = int (digitsVal hs); m = int (digitsVal ms); h24 = (if h = 12 then 0 else h)
            in if h24 > 23 \<or> m > 59 then None else Some (h24, m))"
    using parseTimeSlot_fields[OF parse_suffixed(1)[OF hs ms ws suf'] hoursMinutes_hm[OF hs ms]]
    by (simp add: period_am[OF suf] to24_simps validTime_def Let_def)
  show "parseTimeSlot (hs @ ws @ suf) =
           (let h = int (digitsVal hs); h24 = (if h = 12 then 0 else h)
            in if h24 > 23 then None else Some (h24, 0))"
    using parseTimeSlot_fields[OF parse_suffixed(2)[OF hs ms ws suf'] hoursMinutes_h[OF hs]]
    by (simp add: period_am[OF suf] to24_simps validTime_def Let_def)
qed

lemma parse_24h:
  assumes hs: "digitStr hs" and ms: "digitStr ms"
  shows "parseTimeSlot (hs @ '':'' @ ms) =
           (let h = int (digitsVal hs); m = int (digitsVal ms)
            in if h > 23 \<or> m > 59 then None else Some (h, m))"
    and "parseTimeSlot hs =
           (let h = int (digitsVal hs) in if h > 23 then None else Some (h, 0))"
proof -
  show "parseTimeSlot (hs @ '':'' @ ms) =
           (let h = int (digitsVal hs); m = int (digitsVal ms)
            in if h > 23 \<or> m > 59 then None else Some (h, m))"
    using parseTimeSlot_fields[OF parse_plain(1)[OF hs ms] hoursMinutes_hm[OF hs ms]]
    by (simp add: to24_simps validTime_def Let_def)
  show "parseTimeSlot hs =
           (let h = int (digitsVal hs) in if h > 23 then None else Some (h, 0))"
    using parseTimeSlot_fields[OF parse_plain(2)[OF hs ms] hoursMinutes_h[OF hs]]
    by (simp add: to24_simps validTime_def Let_def)
qed

lemma two_digits:
  assumes "n < 100"
  shows "padStart2 (showNat n) = [digitChar (n div 10), digitChar (n mod 10)]"
    and "(if n < 10 then ''0'' @ showNat n else showNat n) = [digitChar (n div 10), digitChar (n mod 10)]"
    and "digitStr [digitChar (n div 10), digitChar (n mod 10)]"
    and "digitsVal [digitChar (n div 10), digitChar (n mod 10)] = n"
proof -
  from assms have d: "n div 10 < 10" "n mod 10 < 10" by simp_all
  have z: "digitChar 0 = CHR ''0''" by (simp add: digitChar_def)
  show "padStart2 (showNat n) = [digitChar (n div 10), digitChar (n mod 10)]"
    using d z by (simp add: padStart2_def showNat.simps[of n] showNat.simps[of "n div 10"])
  show "(if n < 10 then ''0'' @ showNat n else showNat n) = [digitChar (n div 10), digitChar (n mod 10)]"
    using d z by (simp add: showNat.simps[of n] showNat.simps[of "n div 10"])
  show "digitStr [digitChar (n div 10), digitChar (n mod 10)]"
    using digitChar_props[OF d(1)] digitChar_props[OF d(2)] by (simp add: digitStr_def)
  show "digitsVal [digitChar (n div 10), digitChar (n mod 10)] = n"
    using digitChar_props[OF d(1)] digitChar_props[OF d(2)] by (simp add: digitsVal_def)
qed

lemma timeMatch_hm:
  assumes hs: "digitStr hs" "length hs \<le> 2" and ab: "isDigit a" "isDigit b"
  shows "timeMatch (hs @ '':'' @ [a, b]) = Some (hs, [a, b], None)"
proof -
  have nd: "\<not> isDigit (CHR '':'')" by (simp add: isDigit_def)
  have tw: "takeWhile isDigit (hs @ '':'' @ [a, b]) = hs"
    using hs nd takeWhile_all[of hs isDigit "'':'' @ [a, b]"] by (simp add: digitStr_def)
  have t2: "take 2 hs = hs" using hs by simp
  have ne: "hs \<noteq> []" using hs by (simp add: digitStr_def)
  show ?thesis unfolding timeMatch_def tw t2 using ne ab by simp
qed

lemma upper_period: "toUpperAscii ''PM'' = ''PM''" "toUpperAscii ''AM'' = ''AM''"
  by (simp_all add: toUpperAscii_def upperAsciiChar_def)

lemma trim_formatted:
  assumes "digitStr hs" and "per = ''PM'' \<or> per = ''AM''"
  shows "trimJS (hs @ '':'' @ [a, b] @ '' '' @ per) = hs @ '':'' @ [a, b] @ '' '' @ per"
proof -
  have "\<not> isSpaceJS (last (hs @ ('':'' @ [a, b] @ '' '' @ per)))"
    using assms(2) by (elim disjE) (simp_all add: not_space_M)
  from trimJS_digits_front[OF assms(1) this] show ?thesis by simp
qed

lemma h12_int: "(if int n mod 12 = 0 then 12 else int n mod 12) = int (if n mod 12 = 0 then 12 else n mod 12)"
proof -
  have e: "int n mod 12 = int (n mod 12)" by (simp add: zmod_int)
  show ?thesis unfolding e by (simp del: of_nat_mod)
qed

lemma showInt_int: "showInt (int n) = showNat n"
  by (simp add: showInt_def)

lemma extractTime_noperiod:
  "timeStr0 \<noteq> [] \<Longrightarrow> timeMatch timeStr0 = Some (hs', mins, None) \<Longrightarrow> parseIntJS hs' = Some h \<Longrightarrow>
   extractTime timeStr0 =
     trimJS (showInt (if h mod 12 = 0 then 12 else h mod 12) @ '':'' @ mins @ '' '' @
             toUpperAscii (if h \<ge> 12 then ''PM'' else ''AM''))"
  by (simp add: extractTime_def)

lemma extractTime_24h:
  assumes hs: "digitStr hs" "length hs \<le> 2" and ab: "isDigit a" "isDigit b"
  shows "extractTime (hs @ '':'' @ [a, b]) =
     showNat (if digitsVal hs mod 12 = 0 then 12 else digitsVal hs mod 12) @ '':'' @ [a, b] @ '' '' @
       (if digitsVal hs \<ge> 12 then ''PM'' else ''AM'')"
proof -
  define k where "k = (if digitsVal hs mod 12 = 0 then 12 else digitsVal hs mod 12)"
  define per where "per = (if digitsVal hs \<ge> 12 then ''PM'' else ''AM'')"
  have ne: "hs @ '':'' @ [a, b] \<noteq> []" by simp
  have p: "parseIntJS hs = Some (int (digitsVal hs))" using hs(1) by (rule parseIntJS_digits)
  have d: "digitStr (showNat k)" using showNat_digits by blast
  have pc: "per = ''PM'' \<or> per = ''AM''" by (simp add: per_def)
  have up: "toUpperAscii per = per" using pc upper_period by auto
  have pe: "(if int (digitsVal hs) \<ge> 12 then ''PM'' else ''AM'') = per" by (simp add: per_def)
  have "extractTime (hs @ '':'' @ [a, b]) =
      trimJS (showInt (int k) @ '':'' @ [a, b] @ '' '' @ toUpperAscii per)"
    unfolding extractTime_noperiod[OF ne timeMatch_hm[OF hs ab] p] h12_int pe k_def ..
  also have "\<dots> = showNat k @ '':'' @ [a, b] @ '' '' @ per"
    unfolding showInt_int up by (rule trim_formatted[OF d pc])
  finally show ?thesis unfolding k_def per_def .
qed

lemma space_ws: "\<forall>c\<in>set '' ''. isSpaceJS c"
  by (simp add: isSpaceJS_def)

lemma parse_extract_digits:
  assumes hs: "digitStr hs" "length hs \<le> 2" "digitsVal hs < 24"
      and m: "minute < 60"
  shows "parseTimeSlot (extractTime (hs @ '':'' @ [digitChar (minute div 10), digitChar (minute mod 10)]))
           = Some (int (digitsVal hs), int minute)"
proof -
  let ?a = "digitChar (minute div 10)" and ?b = "digitChar (minute mod 10)"
  let ?h = "digitsVal hs"
  define k where "k = (if ?h mod 12 = 0 then 12 else ?h mod 12)"
  from m have m100: "minute < 100" by simp
  have ab: "isDigit ?a" "isDigit ?b" using two_digits(3)[OF m100] by (simp_all add: digitStr_def)
  have ms: "digitStr [?a, ?b]" "digitsVal [?a, ?b] = minute" using two_digits[OF m100] by simp_all
  have dk: "digitStr (showNat k)" "digitsVal (showNat k) = k" using showNat_digits by blast+
  have ex: "extractTime (hs @ '':'' @ [?a, ?b]) =
       showNat k @ '':'' @ [?a, ?b] @ '' '' @ (if ?h \<ge> 12 then ''PM'' else ''AM'')"
    unfolding k_def by (rule extractTime_24h[OF hs(1,2) ab])
  show ?thesis
  proof (cases "?h \<ge> 12")
    case True
    have pm: "''PM'' \<in> set pmSuffixes" by (simp add: pmSuffixes_def)
    have k: "(if int k < 12 then int k + 12 else int k) = int ?h"
      using True hs(3) unfolding k_def by (auto simp: mod_if split: if_splits) 
    have "parseTimeSlot (showNat k @ '':'' @ [?a, ?b] @ '' '' @ ''PM'') = Some (int ?h, int minute)"
      unfolding parse_pm(1)[OF dk(1) ms(1) space_ws pm] dk(2) ms(2) Let_def k using hs(3) m by simp
    with ex True show ?thesis by simp
  next
    case False
    have am: "''AM'' \<in> set amSuffixes" by (simp add: amSuffixes_def)
    have k: "(if int k = 12 then 0 else int k) = int ?h"
      using False unfolding k_def by (auto split: if_splits) 
    have "parseTimeSlot (showNat k @ '':'' @ [?a, ?b] @ '' '' @ ''AM'') = Some (int ?h, int minute)"
      unfolding parse_am(1)[OF dk(1) ms(1) space_ws am] dk(2) ms(2) Let_def k using hs(3) m by simp
    with ex False show ?thesis by simp
  qed
qed

lemma round_trip_timeStr:
  assumes "hour < 24" "minute < 60"
  shows "parseTimeSlot (extractTime (timeStr hour minute)) = Some (int hour, int minute)"
proof -
  have h: "digitStr (showNat hour)" "length (showNat hour) \<le> 2" "digitsVal (showNat hour) < 24"
    using showNat_digits[of hour] showNat_length[of hour] assms(1) by simp_all
  have "timeStr hour minute = showNat hour @ '':'' @ [digitChar (minute div 10), digitChar (minute mod 10)]"
    unfolding timeStr_def using two_digits(2)[of minute] assms(2) by simp
  then show ?thesis using parse_extract_digits[OF h assms(2)] showNat_digits[of hour] by simp
qed

lemma round_trip_formattedTime:
  assumes "hour < 24" "minute < 60"
  shows "parseTimeSlot (extractTime (formattedTime hour minute)) = Some (int hour, int minute)"
    and "parseTimeSlot (formattedTime hour minute) = Some (int hour, int minute)"
proof -
  let ?hs = "[digitChar (hour div 10), digitChar (hour mod 10)]"
  let ?ms = "[digitChar (minute div 10), digitChar (minute mod 10)]"
  from assms have b: "hour < 100" "minute < 100" by simp_all
  have h: "digitStr ?hs" "length ?hs \<le> 2" "digitsVal ?hs < 24"
    using two_digits(3,4)[OF b(1)] assms(1) by simp_all
  have f: "formattedTime hour minute = ?hs @ '':'' @ ?ms"
    unfolding formattedTime_def two_digits(1)[OF b(1)] two_digits(1)[OF b(2)] ..
  show "parseTimeSlot (extractTime (formattedTime hour minute)) = Some (int hour, int minute)"
    unfolding f using parse_extract_digits[OF h assms(2)] two_digits(4)[OF b(1)] by simp
  show "parseTimeSlot (formattedTime hour minute) = Some (int hour, int minute)"
    unfolding f parse_24h(1)[OF h(1) two_digits(3)[OF b(2)]] two_digits(4)[OF b(1)] two_digits(4)[OF b(2)]
    using assms by simp
qed

lemma parseTimeSlot_range: "parseTimeSlot s = Some (h, m) \<Longrightarrow> 0 \<le> h \<and> h \<le> 23 \<and> 0 \<le> m \<and> m \<le> 59"
  by (auto simp: parseTimeSlot_def validTime_def split: prod.splits option.splits if_splits)

lemma digit_examples: "digitStr ''12''" "digitStr ''30''" "digitStr ''9''" "digitStr ''75''"
  by (simp_all add: digitStr_def isDigit_def)

lemma digit_values: "digitsVal ''12'' = 12" "digitsVal ''30'' = 30" "digitsVal ''9'' = 9" "digitsVal ''75'' = 75"
  by (simp_all add: digitsVal_def digitVal_def)

section \<open>Lemmas on the job\<close>

lemma bindR_simps [simp]:
  "bindR (Val v) f = f v"
  "bindR (Throw e) f = Throw e"
  "bindR Unmodelled f = Unmodelled"
  by (simp_all add: bindR_def)

lemma catchR_simps [simp]:
  "catchR (Val v) h = Val v"
  "catchR (Throw e) h = h e"
  "catchR Unmodelled h = Unmodelled"
  by (simp_all add: catchR_def)

lemma mapR_Val: "(\<And>x. x \<in> set xs \<Longrightarrow> f x = Val (g x)) \<Longrightarrow> mapR f xs = Val (map g xs)"
  by (induction xs) simp_all

lemma forEachR_Val: "(\<And>x. x \<in> set xs \<Longrightarrow> f x = Val ()) \<Longrightarrow> forEachR f xs = Val ()"
  by (induction xs) simp_all

lemma filterR_filter: "filterR f xs = Val ys \<Longrightarrow> ys = filter (\<lambda>x. f x = Val True) xs"
proof (induction xs arbitrary: ys)
  case Nil
  then show ?case by simp
next
  case (Cons x xs)
  then show ?case
    by (cases "f x"; cases "filterR f xs") (auto split: if_splits)
qed

lemma mapR_fst: "mapR (\<lambda>u. bindR (g u) (\<lambda>out. Val (u, out))) us = Val outs \<Longrightarrow> map fst outs = us"
proof (induction us arbitrary: outs)
  case Nil
  then show ?case by simp
next
  case (Cons u us)
  then show ?case
    by (cases "g u"; cases "mapR (\<lambda>u. bindR (g u) (\<lambda>out. Val (u, out))) us") auto
qed

lemma mapR_snd: "mapR (\<lambda>u. bindR (g u) (\<lambda>out. Val (u, out))) us = Val outs \<Longrightarrow>
   \<forall>uo \<in> set outs. g (fst uo) = Val (snd uo)"
proof (induction us arbitrary: outs)
  case Nil
  then show ?case by simp
next
  case (Cons u us)
  then show ?case
    by (cases "g u"; cases "mapR (\<lambda>u. bindR (g u) (\<lambda>out. Val (u, out))) us") auto
qed

subsection \<open>The loop on a grid of strings\<close>

lemma coerce_grid:
  assumes "\<not> truthy (weeklySchedule u)" and "schedule u = gridSchedule headers rows" and "rows \<noteq> []"
  shows "coerceSchedule u = Rows (map (\<lambda>cells. Arr (map Str cells)) rows) (Arr (map Str headers))"
  using assms by (simp add: coerceSchedule_def orElse_def gridSchedule_def)

lemma currentDayRow_arrays:
  assumes "rows \<noteq> []" and "\<forall>r\<in>set rows. isArray r"
  shows "isArray (currentDayRow d rows)"
proof -
  from assms obtain r0 rest where r: "rows = r0 # rest" by (cases rows) auto
  have a: "isArray r0" using assms r by simp
  have t: "truthy v" if "isArray v" for v using that by (cases v) simp_all
  show ?thesis
  proof (cases "getDay d < length rows")
    case True
    then have "isArray (rows ! getDay d)" using assms(2) by simp
    then show ?thesis using True t by (simp add: currentDayRow_def orElse_def)
  next
    case False
    then show ?thesis using a r by (simp add: currentDayRow_def orElse_def)
  qed
qed

lemma isNewFormat_array: "isArray v \<Longrightarrow> isNewFormat v = Val False"
  by (cases v) (simp_all add: isNewFormat_def)

lemma getProp_array_names:
  "k \<noteq> ''length'' \<Longrightarrow> getProp (Arr xs) k = Val Undefined"
  by simp

lemma readFirst_array:
  assumes "''length'' \<notin> set keys"
  shows "readFirst (Arr (map Str cells)) keys i =
           Val (if i < length cells \<and> cells ! i \<noteq> [] then Str (cells ! i) else Str [])"
proof -
  have m: "mapR (getProp (Arr (map Str cells))) keys = Val (map (\<lambda>k. Undefined) keys)"
    using assms by (intro mapR_Val) auto
  have f: "firstTruthy (map (\<lambda>k. Undefined) keys @ [c, Str []]) = (if truthy c then c else Str [])" for c
    by (induction keys) (simp_all, metis append_is_Nil_conv firstTruthy.simps(3) list.exhaust not_Cons_self2 truthy.simps(1))
  show ?thesis
    unfolding readFirst_def m by (simp add: f)
qed

lemma collectRow_grid:
  assumes "\<not> protoRow cells"
  shows "collectRow (Arr (map Str cells)) = Val ()"
proof -
  have k: "''length'' \<notin> set [''task'', ''Task'', ''text'', ''Text'']"
          "''length'' \<notin> set [''day'', ''Day'']" "''length'' \<notin> set [''time'', ''Time'']"
    by simp_all
  show ?thesis
  proof (cases cells)
    case Nil
    then show ?thesis
      unfolding collectRow_def readFirst_array[OF k(1)] readFirst_array[OF k(2)] readFirst_array[OF k(3)]
      by simp
  next
    case (Cons d r1)
    note c1 = this
    show ?thesis
    proof (cases r1)
      case Nil
      then show ?thesis
        unfolding collectRow_def readFirst_array[OF k(1)] readFirst_array[OF k(2)] readFirst_array[OF k(3)] c1
        by simp
    next
      case (Cons t r2)
      note c2 = this
      show ?thesis
      proof (cases r2)
        case Nil
        then show ?thesis
          unfolding collectRow_def readFirst_array[OF k(1)] readFirst_array[OF k(2)] readFirst_array[OF k(3)] c1 c2
          by simp
      next
        case (Cons k3 r3)
        then show ?thesis
          using assms
          unfolding collectRow_def readFirst_array[OF k(1)] readFirst_array[OF k(2)] readFirst_array[OF k(3)] c1 c2
          by (auto simp: protoRow_def callToString_def pushDaysMap_def)
      qed
    qed
  qed
qed

lemma parseTimeSlot_empty: "parseTimeSlot [] = None"
  by (simp add: parseTimeSlot_def splitPeriod_def trimJS_def hoursMinutes_def splitJS_def parseIntJS_def)

lemma slotAt_grid:
  assumes "c < length headers"
  shows "slotAt (Arr (map Str headers)) (map Str cells) c =
           Val (case parseTimeSlot (headers ! c) of
                  None \<Rightarrow> None
                | Some (h, m) \<Rightarrow> Some \<lparr>slotCol = c, slotHours = h, slotMinutes = m,
                                      slotText = cellText cells c\<rparr>)"
proof (cases "headers ! c = []")
  case True
  then show ?thesis using assms by (simp add: slotAt_def parseTimeSlot_empty)
next
  case False
  have t: "callToString (orElse (cellAt (map Str cells) c) (Str [])) =
             Val (if c < length cells then cells ! c else [])"
    by (simp add: callToString_def orElse_def cellAt_def)
  have e: "trimJS [] = []" by (simp add: trimJS_def)
  show ?thesis using assms False
    unfolding slotAt_def
    by (simp add: t cellText_def e split: option.splits)
qed

lemma timeSlots_grid:
  "timeSlots (Arr (map Str headers)) (map Str cells) =
     Val (List.map_filter id
            (map (\<lambda>c. case parseTimeSlot (headers ! c) of
                         None \<Rightarrow> None
                       | Some (h, m) \<Rightarrow> Some \<lparr>slotCol = c, slotHours = h, slotMinutes = m,
                                             slotText = cellText cells c\<rparr>)
                 [0..<length headers]))"
proof -
  have n: "headerCount (Arr (map Str headers)) = Val (length headers)"
    by (simp add: headerCount_def)
  have m: "mapR (slotAt (Arr (map Str headers)) (map Str cells)) [0..<length headers] =
     Val (map (\<lambda>c. case parseTimeSlot (headers ! c) of
                         None \<Rightarrow> None
                       | Some (h, m) \<Rightarrow> Some \<lparr>slotCol = c, slotHours = h, slotMinutes = m,
                                             slotText = cellText cells c\<rparr>) [0..<length headers])"
    by (rule mapR_Val) (simp add: slotAt_grid)
  show ?thesis unfolding timeSlots_def n by (simp add: m)
qed

subsection \<open>The sort is stable\<close>

lemma dueTexts_unsorted:
  "dueTexts clk slots =
     map slotText
       (filter (\<lambda>s. slotText s \<noteq> [])
          (filter (\<lambda>s. slotHours s = int (targetHour clk) \<and> slotMinutes s = int (targetMinute clk)) slots))"
proof -
  have "filter (\<lambda>s. (slotHours s, slotMinutes s) = (int (targetHour clk), int (targetMinute clk)))
          (sort_key (\<lambda>s. (slotHours s, slotMinutes s)) slots)
      = filter (\<lambda>s. (slotHours s, slotMinutes s) = (int (targetHour clk), int (targetMinute clk))) slots"
    by (rule sort_key_stable)
  then show ?thesis by (simp add: dueTexts_def sortSlots_def)
qed

lemma dueTexts_grid:
  "dueTexts clk (List.map_filter id
            (map (\<lambda>c. case parseTimeSlot (headers ! c) of
                         None \<Rightarrow> None
                       | Some (h, m) \<Rightarrow> Some \<lparr>slotCol = c, slotHours = h, slotMinutes = m,
                                             slotText = cellText cells c\<rparr>) cols))
   = concat (map (\<lambda>c. if parseTimeSlot (headers ! c) = Some (int (targetHour clk), int (targetMinute clk))
                         \<and> cellText cells c \<noteq> []
                      then [cellText cells c] else []) cols)"
  unfolding dueTexts_unsorted
  by (induction cols) (auto simp: List.map_filter_simps split: option.splits)

lemma processBody_grid:
  assumes w: "\<not> truthy (weeklySchedule u)" and s: "schedule u = gridSchedule headers rows"
      and i: "dayToRowIndex (targetDay clk) < length rows"
      and p: "\<forall>cells\<in>set rows. \<not> protoRow cells"
  shows "processBody send clk u =
           Val (Sent (map (\<lambda>t. (t, dispatch send u t))
                          (gridDue clk headers (rows ! dayToRowIndex (targetDay clk)))))"
proof -
  let ?rows = "map (\<lambda>cells. Arr (map Str cells)) rows"
  from i have ne: "rows \<noteq> []" by auto
  have c: "coerceSchedule u = Rows ?rows (Arr (map Str headers))"
    by (rule coerce_grid[OF w s ne])
  have arr: "\<forall>r\<in>set ?rows. isArray r" by simp
  have n: "isNewFormat (currentDayRow (targetDay clk) ?rows) = Val False"
    using currentDayRow_arrays[OF _ arr] ne by (simp add: isNewFormat_array)
  have k: "forEachR logRowKeys ?rows = Val ()"
    by (rule forEachR_Val) (auto simp: logRowKeys_def)
  have l: "forEachR collectRow ?rows = Val ()"
    using p by (intro forEachR_Val) (auto simp: collectRow_grid)
  have r: "?rows ! dayToRowIndex (targetDay clk) = Arr (map Str (rows ! dayToRowIndex (targetDay clk)))"
    using i by simp
  show ?thesis
    unfolding processBody_def c using i
    by (simp add: n k l r timeSlots_grid dueTexts_grid gridDue_def del: map_map)
qed

lemma processBody_grid_short:
  assumes w: "\<not> truthy (weeklySchedule u)" and s: "schedule u = gridSchedule headers rows"
      and i: "\<not> dayToRowIndex (targetDay clk) < length rows"
      and p: "\<forall>cells\<in>set rows. \<not> protoRow cells"
  shows "processBody send clk u = Val Skipped"
proof (cases "rows = []")
  case True
  with w s have "coerceSchedule u = NoRows"
    by (simp add: coerceSchedule_def gridSchedule_def orElse_def)
  then show ?thesis by (simp add: processBody_def)
next
  case ne: False
  let ?rows = "map (\<lambda>cells. Arr (map Str cells)) rows"
  have c: "coerceSchedule u = Rows ?rows (Arr (map Str headers))"
    by (rule coerce_grid[OF w s ne])
  have arr: "\<forall>r\<in>set ?rows. isArray r" by simp
  have n: "isNewFormat (currentDayRow (targetDay clk) ?rows) = Val False"
    using currentDayRow_arrays[OF _ arr] ne by (simp add: isNewFormat_array)
  have k: "forEachR logRowKeys ?rows = Val ()"
    by (rule forEachR_Val) (auto simp: logRowKeys_def)
  have l: "forEachR collectRow ?rows = Val ()"
    using p by (intro forEachR_Val) (auto simp: collectRow_grid)
  show ?thesis
    unfolding processBody_def c using i
    by (simp add: n k l)
qed

subsection \<open>Rows that are objects\<close>

lemma coerce_rows_nonempty: "coerceSchedule u = Rows rows headers \<Longrightarrow> rows \<noteq> []"
  by (auto simp: coerceSchedule_def Let_def split: if_splits jsval.splits)

lemma currentDayRow_objs:
  assumes "rows \<noteq> []" and "\<forall>r\<in>set rows. isObj r"
  shows "currentDayRow d rows \<in> set rows"
proof -
  from assms obtain r0 rest where r: "rows = r0 # rest" by (cases rows) auto
  have t: "truthy v" if "isObj v" for v using that by (cases v) simp_all
  show ?thesis
  proof (cases "getDay d < length rows")
    case True
    then have "rows ! getDay d \<in> set rows" by simp
    then show ?thesis using True t assms(2) by (simp add: currentDayRow_def orElse_def)
  next
    case False
    then show ?thesis using r by (simp add: currentDayRow_def orElse_def)
  qed
qed

lemma isNewFormat_day: "''day'' \<in> fst ` set kvs \<Longrightarrow> isNewFormat (Obj kvs) = Val True"
  by (simp add: isNewFormat_def)

lemma processBody_day_rows:
  assumes c: "coerceSchedule u = Rows rows headers"
      and o: "\<forall>r\<in>set rows. \<exists>kvs. r = Obj kvs \<and> ''day'' \<in> fst ` set kvs"
  shows "processBody send clk u = Throw ReferenceError"
proof -
  have ne: "rows \<noteq> []" using c by (rule coerce_rows_nonempty)
  have o': "\<forall>r\<in>set rows. isObj r" using o by auto
  from currentDayRow_objs[OF ne o', of "targetDay clk"] o
  obtain kvs where cur: "currentDayRow (targetDay clk) rows = Obj kvs" "''day'' \<in> fst ` set kvs"
    by blast
  show ?thesis unfolding processBody_def c using cur by (simp add: isNewFormat_day)
qed

text \<open>
  The lemmas above are about the body of the loop when it is handed rows that are
  objects.  No stored schedule reaches the loop in this shape: the rows of a document
  are arrays or \<^verbatim>\<open>null\<close>.
\<close>

subsection \<open>Stored records as the job reads them\<close>

lemma grid_read_as_stored:
  "loadedSchedule headers (map (\<lambda>cells. Arr (map Str cells)) rows) = gridSchedule headers rows"
  by (simp add: loadedSchedule_def gridSchedule_def comp_def)











subsection \<open>The job as a whole\<close>

lemma prologue_selected:
  assumes "prologue allUsers = Val selected"
  shows "selected = filter (\<lambda>u. hasPhone u \<and> isVerified u = Some True \<and> whatsapp u \<noteq> Some False \<and>
                                hasValidSchedule u = Val True) allUsers"
proof -
  from assms have s: "selectUsers allUsers = Val selected"
    by (cases "forEachR logUser allUsers") (simp_all add: prologue_def)
  have e: "(bindR (hasValidSchedule u) (\<lambda>valid. Val (whatsappEnabled u \<and> valid)) = Val True)
             = (whatsapp u \<noteq> Some False \<and> hasValidSchedule u = Val True)" for u
    by (cases "hasValidSchedule u") (auto simp: whatsappEnabled_def)
  from filterR_filter[OF s[unfolded selectUsers_def]] show ?thesis
    unfolding e verifiedUsers_def by (simp add: conj_ac)
qed

lemma minuteJob_Ran:
  assumes "minuteJob send clk allUsers = Ran outs"
  shows "prologue allUsers = Val (map fst outs)"
    and "\<forall>uo\<in>set outs. processUser send clk (fst uo) = Val (snd uo)"
proof -
  from assms obtain selected where p: "prologue allUsers = Val selected" and ne: "selected \<noteq> []"
      and a: "afterSelection send clk selected = Val outs"
    unfolding minuteJob_def
    by (cases "prologue allUsers"; cases "afterSelection send clk (case prologue allUsers of Val s \<Rightarrow> s)")
       (auto split: if_splits)
  from a have l: "reminderLoop send clk selected = Val outs"
    unfolding afterSelection_def
    by (cases "forEachR (logCurrentDay (today clk)) selected"; cases "forEachR logUserSchedule selected")
       simp_all
  from mapR_fst[OF l[unfolded reminderLoop_def]] p
  show "prologue allUsers = Val (map fst outs)" by simp
  from mapR_snd[OF l[unfolded reminderLoop_def]]
  show "\<forall>uo\<in>set outs. processUser send clk (fst uo) = Val (snd uo)" .
qed

lemma processUser_Sent:
  assumes "processUser send clk u = Val (Sent xs)"
  shows "processBody send clk u = Val (Sent xs)"
  using assms by (cases "processBody send clk u") (simp_all add: processUser_def)

lemma processBody_Sent:
  assumes "processBody send clk u = Val (Sent xs)"
  shows "\<exists>rows headers cells slots.
           coerceSchedule u = Rows rows headers \<and>
           dayToRowIndex (targetDay clk) < length rows \<and>
           rows ! dayToRowIndex (targetDay clk) = Arr cells \<and>
           timeSlots headers cells = Val slots \<and>
           xs = map (\<lambda>t. (t, dispatch send u t)) (dueTexts clk slots)"
proof (cases "coerceSchedule u")
  case NoRows
  with assms show ?thesis by (simp add: processBody_def)
next
  case Circular
  with assms show ?thesis by (simp add: processBody_def)
next
  case (Rows rows headers)
  note c = this
  let ?i = "dayToRowIndex (targetDay clk)"
  from assms have b: "isNewFormat (currentDayRow (targetDay clk) rows) = Val False"
    unfolding processBody_def c
    by (cases "isNewFormat (currentDayRow (targetDay clk) rows)") (auto split: if_splits)
  from assms b have k: "forEachR logRowKeys rows = Val ()"
    unfolding processBody_def c by (cases "forEachR logRowKeys rows") simp_all
  from assms b k have l: "forEachR collectRow rows = Val ()"
    unfolding processBody_def c by (cases "forEachR collectRow rows") simp_all
  from assms b k l have i: "?i < length rows"
    unfolding processBody_def c by (cases "?i < length rows") simp_all
  from assms b k l i obtain cells where r: "rows ! ?i = Arr cells"
    unfolding processBody_def c by (cases "rows ! ?i") simp_all
  from assms b k l i r obtain slots where t: "timeSlots headers cells = Val slots"
    unfolding processBody_def c by (cases "timeSlots headers cells") simp_all
  from assms b k l i r t have "xs = map (\<lambda>t. (t, dispatch send u t)) (dueTexts clk slots)"
    unfolding processBody_def c by simp
  with c i r t show ?thesis by blast
qed

lemma sent_text_origin:
  assumes "t \<in> set (sentTexts (minuteJob send clk allUsers))"
  shows "\<exists>u\<in>set allUsers. \<exists>rows headers cells slots.
           coerceSchedule u = Rows rows headers \<and>
           dayToRowIndex (targetDay clk) < length rows \<and>
           rows ! dayToRowIndex (targetDay clk) = Arr cells \<and>
           timeSlots headers cells = Val slots \<and>
           t \<in> slotText ` set slots"
proof (cases "minuteJob send clk allUsers")
  case (Ran outs)
  with assms obtain u xs where m: "(u, Sent xs) \<in> set outs" and t: "t \<in> fst ` set xs"
    by (fastforce split: outcome.splits)
  from minuteJob_Ran(2)[OF Ran] m have p: "processUser send clk u = Val (Sent xs)" by force
  from minuteJob_Ran(1)[OF Ran]
  have "map fst outs = filter (\<lambda>u. hasPhone u \<and> isVerified u = Some True \<and> whatsapp u \<noteq> Some False \<and>
                                    hasValidSchedule u = Val True) allUsers"
    by (rule prologue_selected)
  with m have u: "u \<in> set allUsers"
    by (metis (no_types, lifting) filter_is_subset fst_conv image_eqI set_map subsetD)
  from processBody_Sent[OF processUser_Sent[OF p]]
  obtain rows headers cells slots where
      a: "coerceSchedule u = Rows rows headers" "dayToRowIndex (targetDay clk) < length rows"
         "rows ! dayToRowIndex (targetDay clk) = Arr cells" "timeSlots headers cells = Val slots"
     and x: "xs = map (\<lambda>t. (t, dispatch send u t)) (dueTexts clk slots)"
    by blast
  from t x have "t \<in> set (dueTexts clk slots)" by (auto simp: image_iff)
  then have "t \<in> slotText ` set slots" unfolding dueTexts_unsorted by auto
  with a u show ?thesis by blast
qed (use assms in simp_all)

subsection \<open>The list of \<^verbatim>\<open>/api/tasks/list\<close>\<close>

lemma uniqueFrom_key:
  "filter (\<lambda>t. taskKey t = k) (uniqueFrom seen ts) =
     (if k \<in> set seen then [] else take 1 (filter (\<lambda>t. taskKey t = k) ts))"
  by (induction ts arbitrary: seen) auto

lemma uniqueFrom_snoc:
  "uniqueFrom seen (ts @ [t]) =
     uniqueFrom seen ts @ (if taskKey t \<in> set seen \<union> taskKey ` set ts then [] else [t])"
  by (induction ts arbitrary: seen) auto

subsection \<open>The handler of the loop\<close>

lemma slotAt_unparsable:
  "c < length hdrs \<Longrightarrow> hdrs ! c = Str s \<Longrightarrow> parseTimeSlot s = None \<Longrightarrow>
   slotAt (Arr hdrs) cells c = Val None"
  by (simp add: slotAt_def)

lemma processUser_never_throws: "processUser send clk u \<noteq> Throw e"
  by (cases "processBody send clk u") (simp_all add: processUser_def)

lemma reminderLoop_never_throws: "reminderLoop send clk us \<noteq> Throw e"
proof (induction us)
  case Nil
  then show ?case by (simp add: reminderLoop_def)
next
  case (Cons u us)
  then show ?case
    using processUser_never_throws[of send clk u e]
    by (cases "processUser send clk u"; cases "reminderLoop send clk us")
       (simp_all add: reminderLoop_def)
qed

lemma reminderLoop_outcomes:
  assumes "reminderLoop send clk us = Val outs"
  shows "map fst outs = us" and "\<forall>uo\<in>set outs. processUser send clk (fst uo) = Val (snd uo)"
  using mapR_fst[OF assms[unfolded reminderLoop_def]] mapR_snd[OF assms[unfolded reminderLoop_def]]
  by simp_all

section \<open>Claims on time strings\<close>

text \<open>
  Claim C4.  A time string with a suffix AM, PM, A or P (in either case, with or
  without white space before it) is read on the 12-hour clock: PM adds 12 to an hour
  below 12 (so 12 PM stays 12), AM turns 12 into 0.  Without a suffix the hour stands
  as it is.  A result always has an hour from 0 to 23 and a minute from 0 to 59: a
  string with a larger hour or minute does not parse, and a header that does not parse
  gives no time slot.
\<close>

theorem time_parsing_rule:
  assumes "digitStr hs" and "digitStr ms" and "\<forall>c\<in>set ws. isSpaceJS c"
  shows "(suf \<in> set pmSuffixes \<longrightarrow>
            parseTimeSlot (hs @ '':'' @ ms @ ws @ suf) =
              (let h = int (digitsVal hs); m = int (digitsVal ms);
                   h24 = (if h < 12 then h + 12 else h)
               in if h24 > 23 \<or> m > 59 then None else Some (h24, m)) \<and>
            parseTimeSlot (hs @ ws @ suf) =
              (let h = int (digitsVal hs); h24 = (if h < 12 then h + 12 else h)
               in if h24 > 23 then None else Some (h24, 0))) \<and>
         (suf \<in> set amSuffixes \<longrightarrow>
            parseTimeSlot (hs @ '':'' @ ms @ ws @ suf) =
              (let h = int (digitsVal hs); m = int (digitsVal ms);
                   h24 = (if h = 12 then 0 else h)
               in if h24 > 23 \<or> m > 59 then None else Some (h24, m)) \<and>
            parseTimeSlot (hs @ ws @ suf) =
              (let h = int (digitsVal hs); h24 = (if h = 12 then 0 else h)
               in if h24 > 23 then None else Some (h24, 0))) \<and>
         parseTimeSlot (hs @ '':'' @ ms) =
           (let h = int (digitsVal hs); m = int (digitsVal ms)
            in if h > 23 \<or> m > 59 then None else Some (h, m)) \<and>
         parseTimeSlot hs =
           (let h = int (digitsVal hs) in if h > 23 then None else Some (h, 0)) \<and>
         (\<forall>s h m. parseTimeSlot s = Some (h, m) \<longrightarrow> 0 \<le> h \<and> h \<le> 23 \<and> 0 \<le> m \<and> m \<le> 59) \<and>
         (\<forall>hdrs cells c s. c < length hdrs \<and> hdrs ! c = Str s \<and> parseTimeSlot s = None \<longrightarrow>
            slotAt (Arr hdrs) cells c = Val None)"
  using parse_pm[OF assms] parse_am[OF assms] parse_24h[OF assms(1,2)]
        parseTimeSlot_range slotAt_unparsable
  by blast

theorem time_parsing_rule_witness:
  "parseTimeSlot ''12:30 AM'' = Some (0, 30) \<and> parseTimeSlot ''12:30'' = Some (12, 30) \<and>
   parseTimeSlot ''12AM'' = Some (0, 0) \<and>
   parseTimeSlot ''9:30pm'' = Some (21, 30) \<and> parseTimeSlot ''9:75'' = None"
proof -
  have ws: "\<forall>c\<in>set '' ''. isSpaceJS c" "\<forall>c\<in>set ''''. isSpaceJS c"
    by (simp_all add: isSpaceJS_def)
  have am: "''AM'' \<in> set amSuffixes" by (simp add: amSuffixes_def)
  have pm: "''pm'' \<in> set pmSuffixes" by (simp add: pmSuffixes_def)
  from time_parsing_rule[OF digit_examples(1,2) ws(1), of "''AM''"] am
  have 1: "parseTimeSlot ''12:30 AM'' = Some (0, 30)" "parseTimeSlot ''12:30'' = Some (12, 30)"
    by (simp_all add: digit_values)
  from time_parsing_rule[OF digit_examples(1,2) ws(2), of "''AM''"] am
  have 2: "parseTimeSlot ''12AM'' = Some (0, 0)"
    by (simp add: digit_values)
  from time_parsing_rule[OF digit_examples(3,2) ws(2), of "''pm''"] pm
  have 3: "parseTimeSlot ''9:30pm'' = Some (21, 30)"
    by (simp add: digit_values)
  from time_parsing_rule[OF digit_examples(3,4) ws(2), of "''pm''"]
  have 4: "parseTimeSlot ''9:75'' = None"
    by (simp add: digit_values)
  from 1 2 3 4 show ?thesis by simp
qed

text \<open>
  Claim C7.  For every hour from 0 to 23 and minute from 0 to 59, \<^verbatim>\<open>extractTime\<close>
  formats the time as \<^verbatim>\<open>H:MM AM\<close> or \<^verbatim>\<open>H:MM PM\<close> and the header parser of the job
  reads that string back as the same hour and minute; the string \<^verbatim>\<open>HH:MM\<close> without
  a suffix is read with its hour on the 24-hour clock.
\<close>

theorem time_round_trip:
  assumes "hour < 24" and "minute < 60"
  shows "extractTime (formattedTime hour minute) =
           showNat (if hour mod 12 = 0 then 12 else hour mod 12) @ '':'' @
           padStart2 (showNat minute) @ '' '' @ (if hour \<ge> 12 then ''PM'' else ''AM'') \<and>
         parseTimeSlot (extractTime (formattedTime hour minute)) = Some (int hour, int minute) \<and>
         parseTimeSlot (extractTime (timeStr hour minute)) = Some (int hour, int minute) \<and>
         parseTimeSlot (formattedTime hour minute) = Some (int hour, int minute)"
proof -
  let ?hs = "[digitChar (hour div 10), digitChar (hour mod 10)]"
  let ?a = "digitChar (minute div 10)" and ?b = "digitChar (minute mod 10)"
  from assms have b: "hour < 100" "minute < 100" by simp_all
  have h: "digitStr ?hs" "length ?hs \<le> 2" "digitsVal ?hs = hour"
    using two_digits(3,4)[OF b(1)] by simp_all
  have ab: "isDigit ?a" "isDigit ?b" using two_digits(3)[OF b(2)] by (simp_all add: digitStr_def)
  have f: "formattedTime hour minute = ?hs @ '':'' @ [?a, ?b]"
    unfolding formattedTime_def two_digits(1)[OF b(1)] two_digits(1)[OF b(2)] ..
  have "extractTime (formattedTime hour minute) =
           showNat (if hour mod 12 = 0 then 12 else hour mod 12) @ '':'' @
           padStart2 (showNat minute) @ '' '' @ (if hour \<ge> 12 then ''PM'' else ''AM'')"
    unfolding f extractTime_24h[OF h(1,2) ab] h(3) two_digits(1)[OF b(2)] by simp
  then show ?thesis
    using round_trip_formattedTime[OF assms] round_trip_timeStr[OF assms] by simp
qed

theorem time_round_trip_witness:
  "extractTime ''13:05'' = ''1:05 PM'' \<and> parseTimeSlot ''1:05 PM'' = Some (13, 5) \<and>
   parseTimeSlot ''13:05'' = Some (13, 5)"
proof -
  have f: "formattedTime 13 5 = ''13:05''" by code_simp
  have s: "showNat (Suc 0) = ''1''" "padStart2 (showNat 5) = ''05''" by code_simp+
  have "(13::nat) < 24" "(5::nat) < 60" by simp_all
  note t = time_round_trip[OF this, unfolded f]
  have e: "extractTime ''13:05'' = ''1:05 PM''" using t by (simp add: s)
  have p0: "parseTimeSlot (extractTime ''13:05'') = Some (13, 5)"
    using conjunct1[OF conjunct2[OF t]] by simp
  have p: "parseTimeSlot ''1:05 PM'' = Some (13, 5)" using p0 unfolding e .
  have q: "parseTimeSlot ''13:05'' = Some (13, 5)" using t by simp
  from e p q show ?thesis by simp
qed


section \<open>Claims on the reminder job\<close>

text \<open>
  Claim C1, as amended.  The job reads a grid by position.  The row with index 0 to 6
  is the row of Monday to Sunday, whatever its first cell says, and the cell at index
  \<open>i\<close> of that row is paired with \<^verbatim>\<open>headers[i]\<close>, the header at the same index.  For a
  grid of strings the texts sent at the target minute are the trimmed, non-empty cells
  of the day's row whose header parses to the target hour and minute, in the order of
  the columns; a cell with no header at its index and a cell under a header that does
  not parse are not sent, and a grid with no row at the index of the day is skipped.
  (The statement leaves out a grid with a row whose first three cells are filled and
  whose first cell is \<^verbatim>\<open>__proto__\<close>: line 3216 throws on it.)  For the headers
  \<^verbatim>\<open>9:00 AM\<close>, \<^verbatim>\<open>10:00 AM\<close> and the one row \<^verbatim>\<open>Standup\<close>, \<^verbatim>\<open>Review\<close> the job sends
  Standup for Monday 9:00, Review for Monday 10:00, nothing for Monday 11:00 and
  nothing on a Tuesday.
\<close>

theorem grid_pairing:
  assumes "\<not> truthy (weeklySchedule u)" and "schedule u = gridSchedule headers rows"
      and "\<forall>cells\<in>set rows. \<not> protoRow cells"
  shows "processUser send clk u =
           Val (if dayToRowIndex (targetDay clk) < length rows
                then Sent (map (\<lambda>t. (t, dispatch send u t))
                            (gridDue clk headers (rows ! dayToRowIndex (targetDay clk))))
                else Skipped)"
  using processBody_grid[OF assms(1,2) _ assms(3)] processBody_grid_short[OF assms(1,2) _ assms(3)]
  by (simp add: processUser_def)

theorem grid_pairing_witness:
  "processUser alwaysDelivered (mondayAt 9 0) positionalUser = Val (Sent [(''Standup'', True)]) \<and>
   processUser alwaysDelivered (mondayAt 10 0) positionalUser = Val (Sent [(''Review'', True)]) \<and>
   processUser alwaysDelivered (mondayAt 11 0) positionalUser = Val (Sent []) \<and>
   processUser alwaysDelivered ((mondayAt 9 0)\<lparr>targetDay := Tuesday\<rparr>) positionalUser = Val Skipped"
proof -
  have w: "\<not> truthy (weeklySchedule positionalUser)"
    by (simp add: positionalUser_def userWith_def)
  have s: "schedule positionalUser = gridSchedule [''9:00 AM'', ''10:00 AM''] [[''Standup'', ''Review'']]"
    by (simp add: positionalUser_def userWith_def)
  have p: "\<forall>cells\<in>set [[''Standup'', ''Review'']]. \<not> protoRow cells"
    by (simp add: protoRow_def)
  have d: "dispatch alwaysDelivered positionalUser t = True" for t
    by (simp add: dispatch_def positionalUser_def userWith_def alwaysDelivered_def)
  have i: "dayToRowIndex (targetDay (mondayAt h m)) = 0" for h m
    by (simp add: mondayAt_def)
  have g9: "gridDue (mondayAt 9 0) [''9:00 AM'', ''10:00 AM''] [''Standup'', ''Review''] = [''Standup'']"
    by code_simp
  have g10: "gridDue (mondayAt 10 0) [''9:00 AM'', ''10:00 AM''] [''Standup'', ''Review''] = [''Review'']"
    by code_simp
  have g11: "gridDue (mondayAt 11 0) [''9:00 AM'', ''10:00 AM''] [''Standup'', ''Review''] = []"
    by code_simp
  have 1: "processUser alwaysDelivered (mondayAt 9 0) positionalUser = Val (Sent [(''Standup'', True)])"
    using grid_pairing[OF w s p, of alwaysDelivered "mondayAt 9 0"] by (simp add: i g9 d)
  have 2: "processUser alwaysDelivered (mondayAt 10 0) positionalUser = Val (Sent [(''Review'', True)])"
    using grid_pairing[OF w s p, of alwaysDelivered "mondayAt 10 0"] by (simp add: i g10 d)
  have 3: "processUser alwaysDelivered (mondayAt 11 0) positionalUser = Val (Sent [])"
    using grid_pairing[OF w s p, of alwaysDelivered "mondayAt 11 0"] by (simp add: i g11)
  have 4: "processUser alwaysDelivered ((mondayAt 9 0)\<lparr>targetDay := Tuesday\<rparr>) positionalUser = Val Skipped"
    using grid_pairing[OF w s p, of alwaysDelivered "(mondayAt 9 0)\<lparr>targetDay := Tuesday\<rparr>"] by simp
  from 1 2 3 4 show ?thesis by simp
qed

text \<open>
  Claim C1 as stated fails on the grid of the specification, whose row starts with the
  day name: at Monday 9:00 the job sends the text Monday, at Monday 10:00 it sends
  Standup, and Review has no header.
\<close>

theorem day_name_column_counterexample:
  "sentTexts (minuteJob alwaysDelivered (mondayAt 9 0) [dayColumnUser]) = [''Monday''] \<and>
   sentTexts (minuteJob alwaysDelivered (mondayAt 10 0) [dayColumnUser]) = [''Standup''] \<and>
   sentTexts (minuteJob alwaysDelivered (mondayAt 9 0) [dayColumnUser]) \<noteq> [''Standup'']"
proof -
  have 1: "sentTexts (minuteJob alwaysDelivered (mondayAt 9 0) [dayColumnUser]) = [''Monday'']"
    by code_simp
  have 2: "sentTexts (minuteJob alwaysDelivered (mondayAt 10 0) [dayColumnUser]) = [''Standup'']"
    by code_simp
  from 1 2 show ?thesis by simp
qed

text \<open>
  Claim C2, as amended.  The per-minute cycle does not read the task store and does
  not write to it: after a cycle the store is what it was, with every task and its
  flag \<^verbatim>\<open>oneMinuteReminderSent\<close> unchanged, and what the cycle does is the same for
  every content of the task store.  Every text the cycle sends is the text of a time
  slot of the day's row in the schedule grid of one of the users.
\<close>

theorem cycle_ignores_tasks:
  "fst (minuteCycle send clk st) = st \<and>
   snd (minuteCycle send clk (st\<lparr>tasks := ts\<rparr>)) = snd (minuteCycle send clk st) \<and>
   (\<forall>t\<in>set (sentTexts (snd (minuteCycle send clk st))).
      \<exists>u\<in>set (users st). \<exists>rows headers cells slots.
        coerceSchedule u = Rows rows headers \<and>
        dayToRowIndex (targetDay clk) < length rows \<and>
        rows ! dayToRowIndex (targetDay clk) = Arr cells \<and>
        timeSlots headers cells = Val slots \<and>
        t \<in> slotText ` set slots)"
  using sent_text_origin[of _ send clk "users st"] by (simp add: minuteCycle_def)

theorem cycle_ignores_tasks_witness:
  "\<exists>rows headers cells slots.
     coerceSchedule positionalUser = Rows rows headers \<and>
     dayToRowIndex (targetDay (mondayAt 9 0)) < length rows \<and>
     rows ! dayToRowIndex (targetDay (mondayAt 9 0)) = Arr cells \<and>
     timeSlots headers cells = Val slots \<and>
     ''Standup'' \<in> slotText ` set slots"
proof -
  let ?st = "\<lparr>users = [positionalUser], tasks = [rentTask]\<rparr>"
  have "minuteJob alwaysDelivered (mondayAt 9 0) [positionalUser] =
          Ran [(positionalUser, Sent [(''Standup'', True)])]"
    by code_simp
  then have s: "sentTexts (snd (minuteCycle alwaysDelivered (mondayAt 9 0) ?st)) = [''Standup'']"
    by (simp add: minuteCycle_def)
  from cycle_ignores_tasks[of alwaysDelivered "mondayAt 9 0" ?st] s
  show ?thesis by simp
qed

text \<open>
  Claim C2 as stated fails: the user is processed, an open task of the user is due
  within the next minute and not yet reminded, and the cycle sends nothing and leaves
  the flag of the task as it was.
\<close>

theorem due_task_not_merged_counterexample:
  "dueTask (mondayAt 11 0) 0 rentTask \<and>
   minuteCycle alwaysDelivered (mondayAt 11 0) \<lparr>users = [positionalUser], tasks = [rentTask]\<rparr> =
     (\<lparr>users = [positionalUser], tasks = [rentTask]\<rparr>, Ran [(positionalUser, Sent [])])"
proof -
  have 1: "dueTask (mondayAt 11 0) 0 rentTask"
    by (simp add: dueTask_def mondayAt_def rentTask_def)
  have 2: "minuteJob alwaysDelivered (mondayAt 11 0) [positionalUser] = Ran [(positionalUser, Sent [])]"
    by code_simp
  from 1 2 show ?thesis by (simp add: minuteCycle_def)
qed

text \<open>
  Claim C3, as amended.  The job calls the dispatcher once for each due item, not once
  for each user: whenever the loop reaches the end of its body for a user, its calls
  are, in order, one for each time slot of the day's row whose time is the target time
  and whose text is not empty, and the message of a call is the text of that one slot.
\<close>

theorem one_call_per_due_slot:
  assumes "processUser send clk u = Val (Sent xs)"
  shows "\<exists>rows headers cells slots.
           coerceSchedule u = Rows rows headers \<and>
           dayToRowIndex (targetDay clk) < length rows \<and>
           rows ! dayToRowIndex (targetDay clk) = Arr cells \<and>
           timeSlots headers cells = Val slots \<and>
           xs = map (\<lambda>s. (slotText s, dispatch send u (slotText s)))
                  (filter (\<lambda>s. slotHours s = int (targetHour clk) \<and>
                               slotMinutes s = int (targetMinute clk) \<and> slotText s \<noteq> []) slots)"
proof -
  from processBody_Sent[OF processUser_Sent[OF assms]]
  obtain rows headers cells slots where
      a: "coerceSchedule u = Rows rows headers" "dayToRowIndex (targetDay clk) < length rows"
         "rows ! dayToRowIndex (targetDay clk) = Arr cells" "timeSlots headers cells = Val slots"
     and x: "xs = map (\<lambda>t. (t, dispatch send u t)) (dueTexts clk slots)"
    by blast
  have "xs = map (\<lambda>s. (slotText s, dispatch send u (slotText s)))
                  (filter (\<lambda>s. slotHours s = int (targetHour clk) \<and>
                               slotMinutes s = int (targetMinute clk) \<and> slotText s \<noteq> []) slots)"
    unfolding x dueTexts_unsorted by (simp add: o_def conj_ac)
  with a show ?thesis by blast
qed

theorem one_call_per_due_slot_witness:
  "\<exists>rows headers cells slots.
     coerceSchedule twoDueUser = Rows rows headers \<and>
     dayToRowIndex (targetDay (mondayAt 9 0)) < length rows \<and>
     rows ! dayToRowIndex (targetDay (mondayAt 9 0)) = Arr cells \<and>
     timeSlots headers cells = Val slots \<and>
     [(''Standup'', True), (''Review'', True)] =
       map (\<lambda>s. (slotText s, dispatch alwaysDelivered twoDueUser (slotText s)))
         (filter (\<lambda>s. slotHours s = int (targetHour (mondayAt 9 0)) \<and>
                      slotMinutes s = int (targetMinute (mondayAt 9 0)) \<and> slotText s \<noteq> []) slots)"
proof -
  have "processUser alwaysDelivered (mondayAt 9 0) twoDueUser =
          Val (Sent [(''Standup'', True), (''Review'', True)])"
    by code_simp
  from one_call_per_due_slot[OF this] show ?thesis .
qed

text \<open>
  Claim C3 as stated fails: with two headers for the same minute the job calls the
  dispatcher twice for one user in one cycle, each time with the text of one item.
\<close>

theorem two_calls_counterexample:
  "minuteJob alwaysDelivered (mondayAt 9 0) [twoDueUser] =
     Ran [(twoDueUser, Sent [(''Standup'', True), (''Review'', True)])]"
  by code_simp




text \<open>
  Claim C8, the code at the failing input.  The loop that sends the reminders has a
  handler for each user, the passes before it have none.  A row that is \<^verbatim>\<open>null\<close> in
  the schedule of one user makes the first pass throw at line 2563, the handler of the
  whole job catches it, and the reminder of the other user, which a cycle without the
  first user sends, is not sent, whichever of the two comes first.
\<close>

theorem null_row_aborts_cycle:
  "minuteJob alwaysDelivered (mondayAt 9 0) [positionalUser] =
     Ran [(positionalUser, Sent [(''Standup'', True)])] \<and>
   minuteJob alwaysDelivered (mondayAt 9 0) [nullRowUser, positionalUser] = Aborted TypeError \<and>
   minuteJob alwaysDelivered (mondayAt 9 0) [positionalUser, nullRowUser] = Aborted TypeError"
proof -
  have 1: "minuteJob alwaysDelivered (mondayAt 9 0) [positionalUser] =
             Ran [(positionalUser, Sent [(''Standup'', True)])]"
    by code_simp
  have 2: "minuteJob alwaysDelivered (mondayAt 9 0) [nullRowUser, positionalUser] = Aborted TypeError"
    by code_simp
  have 3: "minuteJob alwaysDelivered (mondayAt 9 0) [positionalUser, nullRowUser] = Aborted TypeError"
    by code_simp
  from 1 2 3 show ?thesis by simp
qed


text \<open>
  Claim C9, the code at the failing input.  A grid whose third row is \<^verbatim>\<open>null\<close> is
  read by the job as it is stored.  Its user passes the first pass, which looks at two
  rows only, and the selection; the fourth pass reads \<^verbatim>\<open>row[0]\<close> of the third row at
  line 2716, outside any handler for one user, and the whole cycle ends in the handler
  of line 3389, also for a user with a sound schedule.  Inside the loop the same
  schedule would only have reached the handler of the loop.
\<close>

theorem malformed_schedule_aborts_cycle:
  "prologue [positionalUser, gapRowUser] = Val [positionalUser, gapRowUser] \<and>
   minuteJob alwaysDelivered (mondayAt 9 0) [gapRowUser] = Aborted TypeError \<and>
   minuteJob alwaysDelivered (mondayAt 9 0) [positionalUser, gapRowUser] = Aborted TypeError \<and>
   processUser alwaysDelivered (mondayAt 9 0) gapRowUser = Val (Caught TypeError)"
proof -
  have 0: "prologue [positionalUser, gapRowUser] = Val [positionalUser, gapRowUser]"
    by code_simp
  have 1: "minuteJob alwaysDelivered (mondayAt 9 0) [gapRowUser] = Aborted TypeError"
    by code_simp
  have 2: "minuteJob alwaysDelivered (mondayAt 9 0) [positionalUser, gapRowUser] = Aborted TypeError"
    by code_simp
  have 3: "processUser alwaysDelivered (mondayAt 9 0) gapRowUser = Val (Caught TypeError)"
    by code_simp
  from 0 1 2 3 show ?thesis by simp
qed





section \<open>Claim on the list of tasks\<close>

text \<open>
  Claim C5, as amended.  The list of \<^verbatim>\<open>/api/tasks/list\<close> keeps the first entry of
  each key and drops the later ones: of the entries with one key (day and time, in
  lower case) exactly the first of the sorted list survives, and an entry added at
  the end is kept if and only if no entry before it has its key.
\<close>

theorem dedup_keeps_first:
  "filter (\<lambda>t. taskKey t = k) (uniqueTasks allTasks) = take 1 (filter (\<lambda>t. taskKey t = k) allTasks) \<and>
   uniqueTasks (allTasks @ [t]) =
     uniqueTasks allTasks @ (if taskKey t \<in> taskKey ` set allTasks then [] else [t])"
  by (simp add: uniqueTasks_def uniqueFrom_key uniqueFrom_snoc)

text \<open>
  Claim C5 as stated fails: of two entries for Monday 9:00 AM with different texts
  the earlier one survives.
\<close>

theorem dedup_last_writer_counterexample:
  "taskKey standupA = taskKey standupB \<and> ltTask standupA \<noteq> ltTask standupB \<and>
   uniqueTasks [standupA, standupB] = [standupA]"
  by (simp add: uniqueTasks_def standupA_def standupB_def taskKey_def)

end
